theory Spec2Isabelle
  imports Complex_Main
begin

section \<open>The gameplay core of the 3-D platformer\<close>

text \<open>
  A shallow embedding of the gameplay logic of \<^verbatim>\<open>js/utils.js\<close>, \<^verbatim>\<open>js/player.js\<close> and
  \<^verbatim>\<open>js/game.js\<close> (classes \<^verbatim>\<open>Game\<close> and \<^verbatim>\<open>Level\<close>).

  Modelling decisions:
  \<^item> JavaScript numbers that carry coordinates and speeds are modelled as \<^typ>\<open>real\<close>:
    comparisons, assignments and the order of the arithmetic are those of the source, the
    rounding of IEEE doubles is not modelled. Counters (score, coins, lives, level numbers)
    are \<^typ>\<open>int\<close>; they stay far below \<open>2^53\<close>, where doubles are exact.
  \<^item> An object with a \<^verbatim>\<open>position\<close> is a record extending \<open>positioned\<close>; the collision
    helpers of \<^verbatim>\<open>Utils\<close> accept any such record, as the duck-typed source does.
  \<^item> Methods that mutate \<^verbatim>\<open>this\<close> and the global \<^verbatim>\<open>game\<close> take the state and return
    the new one. \<^verbatim>\<open>forEach\<close> loops are folds or structural recursion over the list.
  \<^item> \<^verbatim>\<open>setTimeout\<close> is modelled by appending the delay and the callback to a list of
    pending timers; the message box of the page is a record.
  \<^item> Rendering state (meshes, colours, particles, camera, HUD counters, rotation and scale
    of entities) has no influence on the logic below and is left out.
  \<^item> \<^verbatim>\<open>await\<close> is modelled as a synchronous call; the outcome of fetching and parsing a
    level descriptor is a parameter \<open>loadJSON\<close>, with \<open>Rejected\<close> for a rejected promise.
\<close>

subsection \<open>Vectors and objects\<close>

record vec3 =
  xc :: real
  yc :: real
  zc :: real

definition Vector3 :: "real \<Rightarrow> real \<Rightarrow> real \<Rightarrow> vec3" where
  "Vector3 a b c = \<lparr>xc = a, yc = b, zc = c\<rparr>"

record positioned =
  position :: vec3

record object3d = positioned +
  visible :: bool

text \<open>\<^verbatim>\<open>userData\<close> of the three entity kinds that carry one.\<close>

record entity = object3d +
  userData_type :: "string option"

record collectible = entity +
  userData_collected :: bool
  userData_originalPosition :: vec3

record hazard = entity +
  userData_damage :: real

record interactive_object = entity +
  userData_action :: string

subsection \<open>Level descriptors\<close>

text \<open>
  The parsed JSON of \<^verbatim>\<open>levels/levelN.json\<close>. A missing scalar or object property is
  \<open>None\<close> (JavaScript's \<^verbatim>\<open>undefined\<close>).
\<close>

record coords =
  cx :: "real option"
  cy :: "real option"
  cz :: "real option"

record objectData =
  od_type :: "string option"
  od_position :: "coords option"
  od_damage :: "real option"
  od_action :: "string option"

record goal =
  goal_type :: "string option"
  goal_count :: "real option"

text \<open>
  One of the five arrays of a descriptor, as the loops of \<^verbatim>\<open>Level\<close> meet it:
  \<^item> \<open>Absent\<close>: the property is missing or falsy, and the \<^verbatim>\<open>create...\<close> method returns
    at once;
  \<^item> \<open>NotIterable\<close>: a truthy value that \<^verbatim>\<open>for ... of\<close> cannot iterate (a number, \<^verbatim>\<open>true\<close>,
    an object), which raises a TypeError;
  \<^item> \<open>Items\<close>: an array; an entry is \<open>None\<close> for JSON \<^verbatim>\<open>null\<close>, on which \<^verbatim>\<open>createObject\<close>
    raises a TypeError at \<^verbatim>\<open>objectData.type\<close>. An entry that is a number, a string or a
    boolean has no properties and is an entry whose fields are all \<open>None\<close>; a string in
    the place of the array is iterated character by character and is an array of such
    entries.
  The scalar properties of an entry have the types of the descriptor format: \<^verbatim>\<open>type\<close> and
  \<^verbatim>\<open>action\<close> are strings, coordinates and \<^verbatim>\<open>damage\<close> are numbers. (A collectible whose
  \<^verbatim>\<open>type\<close> is a number or an object is not in the model: \<^verbatim>\<open>countTotalCoins\<close> would raise
  on its \<^verbatim>\<open>includes\<close>.)
\<close>

datatype category = Absent | NotIterable | Items "objectData option list"

record levelData =
  ld_platforms :: category
  ld_collectibles :: category
  ld_hazards :: category
  ld_environment :: category
  ld_interactive :: category
  ld_spawn :: "coords option"
  ld_goal :: "goal option"

text \<open>
  The outcome of \<^verbatim>\<open>Utils.loadJSON\<close>: the promise is rejected (the fetch fails or the body is
  not JSON), or it resolves with the parsed value, \<open>None\<close> for the JSON value \<^verbatim>\<open>null\<close>. A
  parsed value that is not an object has no properties and is a descriptor whose arrays
  are \<open>Absent\<close>.
\<close>

datatype fetched = Rejected | Parsed "levelData option"

datatype thrown = TypeError

subsection \<open>Level, player and game state\<close>

record Level =
  platforms :: "object3d list"
  collectibles :: "collectible list"
  hazards :: "hazard list"
  environment :: "object3d list"
  interactive :: "interactive_object list"
  currentLevel :: int
  levelData :: "levelData option"
  totalCoins :: nat

record keys =
  key_left :: bool
  key_right :: bool
  key_forward :: bool
  key_backward :: bool
  key_space :: bool
  key_shift :: bool

record Player = positioned +
  velocity :: vec3
  speed :: real
  jumpForce :: real
  gravity :: real
  isGrounded :: bool
  isJumping :: bool
  lives :: int
  isAlive :: bool
  keys :: keys

record GameState =
  isPlaying :: bool
  isPaused :: bool
  isLoading :: bool
  currentLevel :: int
  score :: int
  coins :: int
  lives :: int

text \<open>
  The texts of the message box are template strings over a number; each constructor stands
  for one template of \<^verbatim>\<open>game.js\<close>:
  \<open>FailedToLoadLevel n\<close> for \<^verbatim>\<open>Failed to load level ${n}\<close> and
  \<open>BetterLuck s\<close> for \<^verbatim>\<open>Better luck next time!\nFinal Score: ${s}\<close>.
\<close>

datatype message_text = FailedToLoadLevel int | BetterLuck int

datatype button_callback = HideMessage | HideMessageAndRestartGame

record messageBox =
  mb_title :: string
  mb_text :: message_text
  mb_buttonText :: string
  mb_onclick :: "button_callback option"
  mb_hidden :: bool

datatype timer_callback = PlayerDied | RestoreColor

record Game =
  gameState :: GameState
  player :: Player
  level :: Level
  gameMessage :: "messageBox option"
  timers :: "(nat \<times> timer_callback) list"

subsection \<open>Utils\<close>

text \<open>\<^verbatim>\<open>a || d\<close> on an optional number and on an optional string: zero and the empty string are falsy.\<close>

definition or_num :: "real option \<Rightarrow> real \<Rightarrow> real" where
  "or_num a d = (case a of None \<Rightarrow> d | Some r \<Rightarrow> if r = 0 then d else r)"

definition or_str :: "string option \<Rightarrow> string \<Rightarrow> string" where
  "or_str a d = (case a of None \<Rightarrow> d | Some s \<Rightarrow> if s = [] then d else s)"

text \<open>\<^verbatim>\<open>String.prototype.includes\<close>.\<close>

fun includes_str :: "string \<Rightarrow> string \<Rightarrow> bool" where
  "includes_str [] sub = (sub = [])"
| "includes_str (c # cs) sub = (take (length sub) (c # cs) = sub \<or> includes_str cs sub)"

definition distance :: "vec3 \<Rightarrow> vec3 \<Rightarrow> real" where
  "distance pos1 pos2 =
     sqrt ((xc pos1 - xc pos2)\<^sup>2 + (yc pos1 - yc pos2)\<^sup>2 + (zc pos1 - zc pos2)\<^sup>2)"

text \<open>A default parameter is an optional argument: \<open>None\<close> selects the default.\<close>

definition isColliding ::
  "'a positioned_scheme \<Rightarrow> 'b positioned_scheme \<Rightarrow> real option \<Rightarrow> bool" where
  "isColliding obj1 obj2 threshold =
     (distance (position obj1) (position obj2) < (case threshold of None \<Rightarrow> 2 | Some t \<Rightarrow> t))"

definition isOnPlatform ::
  "'a positioned_scheme \<Rightarrow> 'b positioned_scheme \<Rightarrow> real option \<Rightarrow> bool" where
  "isOnPlatform pl platform threshold =
     (let horizontalDistance =
            sqrt ((xc (position pl) - xc (position platform))\<^sup>2 +
                  (zc (position pl) - zc (position platform))\<^sup>2);
          verticalDistance = yc (position pl) - yc (position platform)
      in horizontalDistance < (case threshold of None \<Rightarrow> 3 | Some t \<Rightarrow> t) \<and>
         verticalDistance > 0.5 \<and>
         verticalDistance < 3)"

definition clamp :: "real \<Rightarrow> real \<Rightarrow> real \<Rightarrow> real" where
  "clamp v lo hi = max lo (min hi v)"

definition showMessage ::
  "string \<Rightarrow> message_text \<Rightarrow> string \<Rightarrow> button_callback option \<Rightarrow> Game \<Rightarrow> Game" where
  "showMessage t txt buttonText cb g =
     g\<lparr>gameMessage := Some \<lparr>mb_title = t, mb_text = txt, mb_buttonText = buttonText,
          mb_onclick = (case cb of
                          Some c \<Rightarrow> Some c
                        | None \<Rightarrow> (case gameMessage g of None \<Rightarrow> None | Some m \<Rightarrow> mb_onclick m)),
          mb_hidden = False\<rparr>\<rparr>"

subsection \<open>Player\<close>

text \<open>The constructor's state: the values of \<^verbatim>\<open>new Player(scene)\<close>.\<close>

definition newPlayer :: Player where
  "newPlayer =
     \<lparr>position = Vector3 0 5 0, velocity = Vector3 0 0 0,
      speed = 0.15, jumpForce = 0.4, gravity = - 0.02,
      isGrounded = False, isJumping = False, Player.lives = 3, isAlive = True,
      keys = \<lparr>key_left = False, key_right = False, key_forward = False,
               key_backward = False, key_space = False, key_shift = False\<rparr>\<rparr>"

definition updateMovement :: "Player \<Rightarrow> Player" where
  "updateMovement this0 =
     (let currentSpeed = (if key_shift (keys this0) then speed this0 * 1.5 else speed this0);
          this1 = (if key_left (keys this0)
                   then this0\<lparr>velocity := (velocity this0)\<lparr>xc := - currentSpeed\<rparr>\<rparr>
                   else if key_right (keys this0)
                   then this0\<lparr>velocity := (velocity this0)\<lparr>xc := currentSpeed\<rparr>\<rparr>
                   else this0\<lparr>velocity := (velocity this0)\<lparr>xc := xc (velocity this0) * 0.8\<rparr>\<rparr>);
          this2 = (if key_forward (keys this1)
                   then this1\<lparr>velocity := (velocity this1)\<lparr>zc := - currentSpeed\<rparr>\<rparr>
                   else if key_backward (keys this1)
                   then this1\<lparr>velocity := (velocity this1)\<lparr>zc := currentSpeed\<rparr>\<rparr>
                   else this1\<lparr>velocity := (velocity this1)\<lparr>zc := zc (velocity this1) * 0.8\<rparr>\<rparr>);
          this3 = (if key_space (keys this2) \<and> isGrounded this2 \<and> \<not> isJumping this2
                   then this2\<lparr>velocity := (velocity this2)\<lparr>yc := jumpForce this2\<rparr>,
                              isGrounded := False, isJumping := True\<rparr>
                   else this2);
          maxSpeed = currentSpeed * 1.2;
          this4 = this3\<lparr>velocity := (velocity this3)
                     \<lparr>xc := clamp (xc (velocity this3)) (- maxSpeed) maxSpeed\<rparr>\<rparr>;
          this5 = this4\<lparr>velocity := (velocity this4)
                     \<lparr>zc := clamp (zc (velocity this4)) (- maxSpeed) maxSpeed\<rparr>\<rparr>
      in this5)"

definition updatePhysics :: "Player \<Rightarrow> Player" where
  "updatePhysics this0 =
     (let this1 = (if \<not> isGrounded this0
                   then this0\<lparr>velocity := (velocity this0)
                                \<lparr>yc := yc (velocity this0) + gravity this0\<rparr>\<rparr>
                   else this0);
          this2 = this1\<lparr>position :=
                     \<lparr>xc = xc (position this1) + xc (velocity this1),
                      yc = yc (position this1) + yc (velocity this1),
                      zc = zc (position this1) + zc (velocity this1)\<rparr>\<rparr>
      in if yc (position this2) \<le> 1
         then this2\<lparr>position := (position this2)\<lparr>yc := 1\<rparr>,
                    velocity := (velocity this2)\<lparr>yc := 0\<rparr>,
                    isGrounded := True, isJumping := False\<rparr>
         else this2)"

text \<open>One iteration of the \<^verbatim>\<open>forEach\<close> of \<^verbatim>\<open>checkPlatformCollisions\<close>; the flag is the
  closure variable \<^verbatim>\<open>onPlatform\<close>.\<close>

definition platformStep :: "object3d \<Rightarrow> Player \<times> bool \<Rightarrow> Player \<times> bool" where
  "platformStep platform acc =
     (let this = fst acc; onPlatform = snd acc
      in if isOnPlatform this platform None
         then (if yc (velocity this) \<le> 0
               then (this\<lparr>position := (position this)\<lparr>yc := yc (position platform) + 2\<rparr>,
                          velocity := (velocity this)\<lparr>yc := 0\<rparr>,
                          isGrounded := True, isJumping := False\<rparr>, True)
               else (this, onPlatform))
         else (this, onPlatform))"

definition checkPlatformCollisions :: "object3d list \<Rightarrow> Player \<Rightarrow> Player" where
  "checkPlatformCollisions pfs this0 =
     (let acc = fold platformStep pfs (this0, False);
          this1 = fst acc; onPlatform = snd acc
      in if \<not> onPlatform \<and> yc (position this1) > 1.1
         then this1\<lparr>isGrounded := False\<rparr>
         else this1)"

definition addScore :: "int \<Rightarrow> Game \<Rightarrow> Game" where
  "addScore points g = g\<lparr>gameState := (gameState g)\<lparr>score := score (gameState g) + points\<rparr>\<rparr>"

definition addCoin :: "Game \<Rightarrow> Game" where
  "addCoin g = g\<lparr>gameState := (gameState g)\<lparr>coins := coins (gameState g) + 1\<rparr>\<rparr>"

definition addLife :: "Game \<Rightarrow> Game" where
  "addLife g = g\<lparr>player := (player g)\<lparr>Player.lives := Player.lives (player g) + 1\<rparr>\<rparr>"

definition collectItem :: "collectible \<Rightarrow> Game \<Rightarrow> collectible \<times> Game" where
  "collectItem collectible0 g =
     (let collectible1 = collectible0\<lparr>userData_collected := True, visible := False\<rparr>;
          type = or_str (userData_type collectible1) ''coin''
      in (collectible1,
          if type = ''coin-gold'' then addCoin (addScore 100 g)
          else if type = ''coin-silver'' then addCoin (addScore 50 g)
          else if type = ''coin-bronze'' then addCoin (addScore 25 g)
          else if type = ''heart'' then addScore 200 (addLife g)
          else if type = ''jewel'' then addScore 500 g
          else if type = ''key'' then addScore 300 g
          else addCoin (addScore 50 g)))"

text \<open>The callback of the \<^verbatim>\<open>forEach\<close> of \<^verbatim>\<open>checkCollectibleCollisions\<close>, and the loop.\<close>

definition collectibleStep :: "collectible \<Rightarrow> Game \<Rightarrow> collectible \<times> Game" where
  "collectibleStep c g =
     (if \<not> userData_collected c \<and> isColliding (player g) c (Some 1.5)
      then collectItem c g else (c, g))"

fun checkCollectibleCollisions :: "collectible list \<Rightarrow> Game \<Rightarrow> collectible list \<times> Game" where
  "checkCollectibleCollisions [] g = ([], g)"
| "checkCollectibleCollisions (c # cs) g =
     (let r = collectibleStep c g;
          rest = checkCollectibleCollisions cs (snd r)
      in (fst r # fst rest, snd rest))"

definition die :: "Game \<Rightarrow> Game" where
  "die g = g\<lparr>player := (player g)\<lparr>isAlive := False\<rparr>,
             timers := timers g @ [(1000, PlayerDied)]\<rparr>"

definition takeDamage :: "Game \<Rightarrow> Game" where
  "takeDamage g =
     (if \<not> isAlive (player g) then g
      else
        let this1 = (player g)\<lparr>Player.lives := Player.lives (player g) - 1\<rparr>;
            this2 = this1\<lparr>velocity := (velocity this1)\<lparr>yc := 0.2\<rparr>\<rparr>;
            this3 = this2\<lparr>velocity := (velocity this2)\<lparr>xc := xc (velocity this2) * (- 2)\<rparr>\<rparr>;
            this4 = this3\<lparr>velocity := (velocity this3)\<lparr>zc := zc (velocity this3) * (- 2)\<rparr>\<rparr>;
            g1 = g\<lparr>player := this4\<rparr>
        in if Player.lives (player g1) \<le> 0 then die g1
           else g1\<lparr>timers := timers g1 @ [(500, RestoreColor)]\<rparr>)"

text \<open>The callback of the \<^verbatim>\<open>forEach\<close> of \<^verbatim>\<open>checkHazardCollisions\<close>, and the loop.\<close>

definition hazardStep :: "hazard \<Rightarrow> Game \<Rightarrow> Game" where
  "hazardStep h g = (if isColliding (player g) h (Some 1.5) then takeDamage g else g)"

definition checkHazardCollisions :: "hazard list \<Rightarrow> Game \<Rightarrow> Game" where
  "checkHazardCollisions hzs g = fold hazardStep hzs g"

definition respawn :: "Player \<Rightarrow> Player" where
  "respawn this = this\<lparr>position := Vector3 0 5 0, velocity := Vector3 0 0 0,
                       isGrounded := False, isJumping := False\<rparr>"

definition checkBoundaries :: "Game \<Rightarrow> Game" where
  "checkBoundaries g =
     (let g1 = (if yc (position (player g)) < - 20
                then (let gd = takeDamage g in gd\<lparr>player := respawn (player gd)\<rparr>)
                else g);
          maxDistance = 100;
          this1 = (player g1)\<lparr>position := (position (player g1))
                     \<lparr>xc := clamp (xc (position (player g1))) (- maxDistance) maxDistance\<rparr>\<rparr>;
          this2 = this1\<lparr>position := (position this1)
                     \<lparr>zc := clamp (zc (position this1)) (- maxDistance) maxDistance\<rparr>\<rparr>
      in g1\<lparr>player := this2\<rparr>)"

text \<open>
  \<^verbatim>\<open>Player.update(platforms, collectibles, hazards)\<close>. The collectibles are mutated in
  place by the source; the model returns the updated list with the new state.
\<close>

definition Player_update ::
  "object3d list \<Rightarrow> collectible list \<Rightarrow> hazard list \<Rightarrow> Game \<Rightarrow> collectible list \<times> Game" where
  "Player_update pfs cls hzs g =
     (if \<not> isAlive (player g) then (cls, g)
      else
        let g1 = g\<lparr>player := updateMovement (player g)\<rparr>;
            g2 = g1\<lparr>player := updatePhysics (player g1)\<rparr>;
            g3 = g2\<lparr>player := checkPlatformCollisions pfs (player g2)\<rparr>;
            r = checkCollectibleCollisions cls g3;
            g5 = checkHazardCollisions hzs (snd r);
            g6 = checkBoundaries g5
        in (fst r, g6))"

text \<open>
  Two observers for the properties below: the state in which \<^verbatim>\<open>update\<close> of a living
  player reaches \<^verbatim>\<open>checkHazardCollisions\<close>, and the number of pending
  \<^verbatim>\<open>game.playerDied\<close> callbacks, one for each call of \<^verbatim>\<open>die\<close>.
\<close>

definition stateAtHazardCheck :: "object3d list \<Rightarrow> collectible list \<Rightarrow> Game \<Rightarrow> Game" where
  "stateAtHazardCheck pfs cls g =
     snd (checkCollectibleCollisions cls
            (g\<lparr>player := checkPlatformCollisions pfs (updatePhysics (updateMovement (player g)))\<rparr>))"

definition pendingDeaths :: "Game \<Rightarrow> nat" where
  "pendingDeaths g = length (filter (\<lambda>t. snd t = PlayerDied) (timers g))"

text \<open>
  A frame of the game loop as the player sees it: the key state left by the key handlers
  and the three lists \<^verbatim>\<open>Game.update\<close> hands to \<^verbatim>\<open>Player.update\<close>. A run is a sequence
  of frames.
\<close>

record frame =
  fr_keys :: keys
  fr_platforms :: "object3d list"
  fr_collectibles :: "collectible list"
  fr_hazards :: "hazard list"

definition tick :: "frame \<Rightarrow> Game \<Rightarrow> Game" where
  "tick fr g =
     snd (Player_update (fr_platforms fr) (fr_collectibles fr) (fr_hazards fr)
            (g\<lparr>player := (player g)\<lparr>keys := fr_keys fr\<rparr>\<rparr>))"

definition run :: "frame list \<Rightarrow> Game \<Rightarrow> Game" where
  "run frs g = fold tick frs g"

definition reset :: "vec3 \<Rightarrow> Player \<Rightarrow> Player" where
  "reset spawnPosition this =
     this\<lparr>position := spawnPosition, velocity := Vector3 0 0 0,
          isGrounded := False, isJumping := False, isAlive := True\<rparr>"

subsection \<open>Level\<close>

definition newLevel :: Level where
  "newLevel =
     \<lparr>platforms = [], collectibles = [], hazards = [], environment = [], interactive = [],
      Level.currentLevel = 1, levelData = None, totalCoins = 0\<rparr>"

definition clearLevel :: "Level \<Rightarrow> Level" where
  "clearLevel this =
     this\<lparr>platforms := [], collectibles := [], hazards := [], environment := [],
          interactive := [], totalCoins := 0\<rparr>"

definition applyTransformations :: "object3d \<Rightarrow> objectData \<Rightarrow> object3d" where
  "applyTransformations object d =
     (case od_position d of
        None \<Rightarrow> object
      | Some p \<Rightarrow> object\<lparr>position :=
                    Vector3 (or_num (cx p) 0) (or_num (cy p) 0) (or_num (cz p) 0)\<rparr>)"

text \<open>
  \<^verbatim>\<open>createObject\<close> clones the asset of the type or, when there is none or loading it fails,
  builds a placeholder mesh; both are new objects at the origin, to which the
  transformations of the descriptor are applied. Only the position matters here.
\<close>

definition createObject :: "string \<Rightarrow> objectData \<Rightarrow> object3d" where
  "createObject category d =
     applyTransformations \<lparr>position = Vector3 0 0 0, visible = True\<rparr> d"

text \<open>
  The \<^verbatim>\<open>for ... of\<close> loop of a \<^verbatim>\<open>create...\<close> method over the entries of an array: every
  entry is built by \<open>mk\<close> and pushed, until a \<^verbatim>\<open>null\<close> entry makes \<^verbatim>\<open>createObject\<close> raise.
  The result is \<open>Inl\<close> with the exception and the array as it is then, or \<open>Inr\<close> with the
  array after the last entry.
\<close>

fun forOf :: "(objectData \<Rightarrow> 'a) \<Rightarrow> objectData option list \<Rightarrow> 'a list \<Rightarrow> (thrown \<times> 'a list) + 'a list" where
  "forOf mk [] acc = Inr acc"
| "forOf mk (None # ds) acc = Inl (TypeError, acc)"
| "forOf mk (Some d # ds) acc = forOf mk ds (acc @ [mk d])"

text \<open>
  The \<^verbatim>\<open>create...\<close> methods read \<^verbatim>\<open>this.levelData\<close>; on \<^verbatim>\<open>null\<close> the property access
  raises a TypeError. An exception leaves the level as it is at that moment: the result
  is \<open>Inl\<close> with the exception and that level, and \<open>Inr\<close> with the level on a normal return.
\<close>

definition createPlatforms :: "Level \<Rightarrow> (thrown \<times> Level) + Level" where
  "createPlatforms this =
     (case levelData this of
        None \<Rightarrow> Inl (TypeError, this)
      | Some data \<Rightarrow>
          (case ld_platforms data of
             Absent \<Rightarrow> Inr this
           | NotIterable \<Rightarrow> Inl (TypeError, this)
           | Items ds \<Rightarrow>
               (case forOf (createObject ''platforms'') ds (platforms this) of
                  Inl e \<Rightarrow> Inl (fst e, this\<lparr>platforms := snd e\<rparr>)
                | Inr built \<Rightarrow> Inr (this\<lparr>platforms := built\<rparr>))))"

definition newCollectible :: "objectData \<Rightarrow> collectible" where
  "newCollectible d =
     (let ob = createObject ''collectibles'' d
      in \<lparr>position = position ob, visible = visible ob, userData_type = od_type d,
          userData_collected = False, userData_originalPosition = position ob\<rparr>)"

definition createCollectibles :: "Level \<Rightarrow> (thrown \<times> Level) + Level" where
  "createCollectibles this =
     (case levelData this of
        None \<Rightarrow> Inl (TypeError, this)
      | Some data \<Rightarrow>
          (case ld_collectibles data of
             Absent \<Rightarrow> Inr this
           | NotIterable \<Rightarrow> Inl (TypeError, this)
           | Items ds \<Rightarrow>
               (case forOf newCollectible ds (collectibles this) of
                  Inl e \<Rightarrow> Inl (fst e, this\<lparr>collectibles := snd e\<rparr>)
                | Inr built \<Rightarrow> Inr (this\<lparr>collectibles := built\<rparr>))))"

definition newHazard :: "objectData \<Rightarrow> hazard" where
  "newHazard d =
     (let ob = createObject ''hazards'' d
      in \<lparr>position = position ob, visible = visible ob, userData_type = od_type d,
          userData_damage = or_num (od_damage d) 1\<rparr>)"

definition createHazards :: "Level \<Rightarrow> (thrown \<times> Level) + Level" where
  "createHazards this =
     (case levelData this of
        None \<Rightarrow> Inl (TypeError, this)
      | Some data \<Rightarrow>
          (case ld_hazards data of
             Absent \<Rightarrow> Inr this
           | NotIterable \<Rightarrow> Inl (TypeError, this)
           | Items ds \<Rightarrow>
               (case forOf newHazard ds (hazards this) of
                  Inl e \<Rightarrow> Inl (fst e, this\<lparr>hazards := snd e\<rparr>)
                | Inr built \<Rightarrow> Inr (this\<lparr>hazards := built\<rparr>))))"

definition createEnvironment :: "Level \<Rightarrow> (thrown \<times> Level) + Level" where
  "createEnvironment this =
     (case levelData this of
        None \<Rightarrow> Inl (TypeError, this)
      | Some data \<Rightarrow>
          (case ld_environment data of
             Absent \<Rightarrow> Inr this
           | NotIterable \<Rightarrow> Inl (TypeError, this)
           | Items ds \<Rightarrow>
               (case forOf (createObject ''environment'') ds (environment this) of
                  Inl e \<Rightarrow> Inl (fst e, this\<lparr>environment := snd e\<rparr>)
                | Inr built \<Rightarrow> Inr (this\<lparr>environment := built\<rparr>))))"

definition newInteractive :: "objectData \<Rightarrow> interactive_object" where
  "newInteractive d =
     (let ob = createObject ''interactive'' d
      in \<lparr>position = position ob, visible = visible ob, userData_type = od_type d,
          userData_action = or_str (od_action d) ''none''\<rparr>)"

definition createInteractive :: "Level \<Rightarrow> (thrown \<times> Level) + Level" where
  "createInteractive this =
     (case levelData this of
        None \<Rightarrow> Inl (TypeError, this)
      | Some data \<Rightarrow>
          (case ld_interactive data of
             Absent \<Rightarrow> Inr this
           | NotIterable \<Rightarrow> Inl (TypeError, this)
           | Items ds \<Rightarrow>
               (case forOf newInteractive ds (interactive this) of
                  Inl e \<Rightarrow> Inl (fst e, this\<lparr>interactive := snd e\<rparr>)
                | Inr built \<Rightarrow> Inr (this\<lparr>interactive := built\<rparr>))))"

text \<open>\<^verbatim>\<open>t && t.includes(sub)\<close> on an optional string.\<close>

definition type_includes :: "string option \<Rightarrow> string \<Rightarrow> bool" where
  "type_includes t sub = (case t of None \<Rightarrow> False | Some s \<Rightarrow> s \<noteq> [] \<and> includes_str s sub)"

definition countTotalCoins :: "Level \<Rightarrow> Level" where
  "countTotalCoins this =
     this\<lparr>totalCoins :=
            length (filter (\<lambda>item. type_includes (userData_type item) ''coin'')
                           (collectibles this))\<rparr>"

text \<open>
  \<^verbatim>\<open>Level.loadLevel\<close>: the body of the \<^verbatim>\<open>try\<close> runs until the first exception, which is
  the rejection of \<^verbatim>\<open>Utils.loadJSON\<close> or a TypeError of a \<^verbatim>\<open>create...\<close> method; the
  \<^verbatim>\<open>catch\<close> returns \<^verbatim>\<open>false\<close> and leaves the level as the body left it.
\<close>

definition Level_loadLevel ::
  "(int \<Rightarrow> fetched) \<Rightarrow> int \<Rightarrow> Level \<Rightarrow> bool \<times> Level" where
  "Level_loadLevel loadJSON levelNumber this0 =
     (let this1 = clearLevel this0
      in case loadJSON levelNumber of
           Rejected \<Rightarrow> (False, this1)
         | Parsed data \<Rightarrow>
             (let this2 = this1\<lparr>levelData := data, Level.currentLevel := levelNumber\<rparr>
              in case createPlatforms this2 of Inl e \<Rightarrow> (False, snd e) | Inr this3 \<Rightarrow>
                (case createCollectibles this3 of Inl e \<Rightarrow> (False, snd e) | Inr this4 \<Rightarrow>
                (case createHazards this4 of Inl e \<Rightarrow> (False, snd e) | Inr this5 \<Rightarrow>
                (case createEnvironment this5 of Inl e \<Rightarrow> (False, snd e) | Inr this6 \<Rightarrow>
                (case createInteractive this6 of Inl e \<Rightarrow> (False, snd e) | Inr this7 \<Rightarrow>
                   (True, countTotalCoins this7)))))))"

definition getPlayerSpawnPosition :: "Level \<Rightarrow> vec3" where
  "getPlayerSpawnPosition this =
     (case levelData this of
        None \<Rightarrow> Vector3 0 5 0
      | Some data \<Rightarrow>
          (case ld_spawn data of
             None \<Rightarrow> Vector3 0 5 0
           | Some s \<Rightarrow> Vector3 (or_num (cx s) 0) (or_num (cy s) 5) (or_num (cz s) 0)))"

definition getLevelGoal :: "Level \<Rightarrow> goal" where
  "getLevelGoal this =
     (case levelData this of
        None \<Rightarrow> \<lparr>goal_type = Some ''collect_all_coins'', goal_count = None\<rparr>
      | Some data \<Rightarrow>
          (case ld_goal data of
             None \<Rightarrow> \<lparr>goal_type = Some ''collect_all_coins'', goal_count = None\<rparr>
           | Some gl \<Rightarrow> gl))"

text \<open>
  \<^verbatim>\<open>checkLevelComplete\<close> reads the global \<^verbatim>\<open>game.player\<close> in the \<^verbatim>\<open>reach_flag\<close> case;
  it is the second argument, \<open>None\<close> while the player does not exist yet.
\<close>

definition checkLevelComplete :: "Level \<Rightarrow> Player option \<Rightarrow> bool" where
  "checkLevelComplete this gamePlayer =
     (let gl = getLevelGoal this
      in if goal_type gl = Some ''collect_all_coins'' then
           (let collectedCoins =
                  length (filter (\<lambda>item. type_includes (userData_type item) ''coin'' \<and>
                                          userData_collected item)
                                 (collectibles this))
            in collectedCoins \<ge> totalCoins this)
         else if goal_type gl = Some ''reach_flag'' then
           (case find (\<lambda>obj. userData_type obj = Some ''flag'') (interactive this) of
              None \<Rightarrow> False
            | Some flag \<Rightarrow>
                (case gamePlayer of
                   None \<Rightarrow> False
                 | Some p \<Rightarrow> distance (position p) (position flag) < 3))
         else if goal_type gl = Some ''collect_hearts'' then
           (let collectedHearts =
                  length (filter (\<lambda>item. userData_type item = Some ''heart'' \<and>
                                          userData_collected item)
                                 (collectibles this))
            in real collectedHearts \<ge> or_num (goal_count gl) 1)
         else False)"

definition resetCollectibles :: "Level \<Rightarrow> Level" where
  "resetCollectibles this =
     this\<lparr>collectibles :=
            map (\<lambda>c. c\<lparr>userData_collected := False, visible := True,
                        position := userData_originalPosition c\<rparr>)
                (collectibles this)\<rparr>"

subsection \<open>Game\<close>

definition newGameState :: GameState where
  "newGameState =
     \<lparr>isPlaying = False, isPaused = False, isLoading = True, GameState.currentLevel = 1,
      score = 0, coins = 0, GameState.lives = 3\<rparr>"

definition newGame :: Game where
  "newGame = \<lparr>gameState = newGameState, player = newPlayer, level = newLevel,
              gameMessage = None, timers = []\<rparr>"

definition showError :: "message_text \<Rightarrow> Game \<Rightarrow> Game" where
  "showError msg g = showMessage ''Error'' msg ''OK'' (Some HideMessage) g"

definition Game_loadLevel ::
  "(int \<Rightarrow> fetched) \<Rightarrow> int \<Rightarrow> Game \<Rightarrow> bool \<times> Game" where
  "Game_loadLevel loadJSON levelNumber g =
     (let r = Level_loadLevel loadJSON levelNumber (level g);
          g1 = g\<lparr>level := snd r\<rparr>
      in if fst r then
           (let g2 = g1\<lparr>gameState := (gameState g1)\<lparr>GameState.currentLevel := levelNumber\<rparr>\<rparr>;
                spawnPos = getPlayerSpawnPosition (level g2);
                g3 = g2\<lparr>player := reset spawnPos (player g2)\<rparr>;
                g4 = g3\<lparr>gameState := (gameState g3)\<lparr>coins := 0\<rparr>\<rparr>
            in (True, g4))
         else (False, showError (FailedToLoadLevel levelNumber) g1))"

definition restartLevel :: "Game \<Rightarrow> Game" where
  "restartLevel g =
     (let spawnPos = getPlayerSpawnPosition (level g);
          g1 = g\<lparr>player := reset spawnPos (player g)\<rparr>;
          g2 = g1\<lparr>player := (player g1)\<lparr>Player.lives := GameState.lives (gameState g1)\<rparr>\<rparr>;
          g3 = g2\<lparr>level := resetCollectibles (level g2)\<rparr>;
          g4 = g3\<lparr>gameState := (gameState g3)\<lparr>coins := 0\<rparr>\<rparr>
      in g4)"

definition playerDied :: "Game \<Rightarrow> Game" where
  "playerDied g =
     (if GameState.lives (gameState g) \<le> 0
      then showMessage ''Game Over'' (BetterLuck (score (gameState g))) ''Restart''
             (Some HideMessageAndRestartGame) g
      else restartLevel g)"

subsection \<open>Example entities and states\<close>

text \<open>A descriptor entry with a type and a full position, and entities built from such
  entries by the constructors of \<^verbatim>\<open>Level\<close>.\<close>

definition descr :: "string \<Rightarrow> real \<Rightarrow> real \<Rightarrow> real \<Rightarrow> objectData" where
  "descr t a b c =
     \<lparr>od_type = Some t, od_position = Some \<lparr>cx = Some a, cy = Some b, cz = Some c\<rparr>,
      od_damage = None, od_action = None\<rparr>"

definition goldCoin :: collectible where
  "goldCoin = newCollectible (descr ''coin-gold'' 0 5 0)"

definition heartItem :: collectible where
  "heartItem = newCollectible (descr ''heart'' 0 5 0)"

definition spike :: hazard where
  "spike = newHazard (descr ''spike'' 0 5 0)"

definition farSpike :: hazard where
  "farSpike = newHazard (descr ''spike'' 50 5 0)"

definition origin_platform :: object3d where
  "origin_platform = createObject ''platforms'' (descr ''grass'' 0 0 0)"

definition deadGame :: Game where
  "deadGame = newGame\<lparr>player := newPlayer\<lparr>isAlive := False\<rparr>\<rparr>"

definition lastLifeGame :: Game where
  "lastLifeGame = newGame\<lparr>player := newPlayer\<lparr>Player.lives := 1\<rparr>\<rparr>"

definition spaceHeld :: keys where
  "spaceHeld = \<lparr>key_left = False, key_right = False, key_forward = False,
                 key_backward = False, key_space = True, key_shift = False\<rparr>"

definition emptyFrame :: "keys \<Rightarrow> frame" where
  "emptyFrame k = \<lparr>fr_keys = k, fr_platforms = [], fr_collectibles = [], fr_hazards = []\<rparr>"

text \<open>The new player standing on the floor.\<close>

definition groundedGame :: Game where
  "groundedGame =
     newGame\<lparr>player := newPlayer\<lparr>position := Vector3 0 1 0, isGrounded := True\<rparr>\<rparr>"

text \<open>
  Three observers of a descriptor for the properties below: the entries of an array that
  its loop gets through, which are those before the first \<^verbatim>\<open>null\<close> (none when the
  property is absent or not iterable); whether the loop over an array ends without an
  exception; and whether that is so for all five arrays.
\<close>

fun beforeNull :: "'a option list \<Rightarrow> 'a list" where
  "beforeNull [] = []"
| "beforeNull (None # ds) = []"
| "beforeNull (Some d # ds) = d # beforeNull ds"

definition entries :: "category \<Rightarrow> objectData list" where
  "entries a = (case a of Absent \<Rightarrow> [] | NotIterable \<Rightarrow> [] | Items ds \<Rightarrow> beforeNull ds)"

definition loopCompletes :: "category \<Rightarrow> bool" where
  "loopCompletes a =
     (case a of Absent \<Rightarrow> True | NotIterable \<Rightarrow> False | Items ds \<Rightarrow> list_all (\<lambda>e. e \<noteq> None) ds)"

definition wellFormed :: "levelData \<Rightarrow> bool" where
  "wellFormed d =
     (loopCompletes (ld_platforms d) \<and> loopCompletes (ld_collectibles d) \<and> loopCompletes (ld_hazards d) \<and>
      loopCompletes (ld_environment d) \<and> loopCompletes (ld_interactive d))"

text \<open>A descriptor with five coins and a heart, a platform and a spike, a spawn point away
  from the default, and no goal; the game after loading it as level 1; the same level
  with every coin collected.\<close>

definition fiveCoinData :: levelData where
  "fiveCoinData =
     \<lparr>ld_platforms = Items [Some (descr ''grass'' 0 0 0)],
      ld_collectibles = Items [Some (descr ''coin-gold'' 2 2 0), Some (descr ''coin-silver'' 4 2 0),
                               Some (descr ''heart'' 6 2 0), Some (descr ''coin-bronze'' 8 2 0),
                               Some (descr ''coin-gold'' 10 2 0), Some (descr ''coin-gold'' 12 2 0)],
      ld_hazards = Items [Some (descr ''spike'' 20 1 0)],
      ld_environment = Absent, ld_interactive = Absent,
      ld_spawn = Some \<lparr>cx = Some 10, cy = Some 5, cz = Some 0\<rparr>,
      ld_goal = None\<rparr>"

text \<open>
  Two malformed descriptors that parse: \<^verbatim>\<open>{"platforms": [{...}, {...}], "collectibles": 5}\<close>,
  whose collectibles are not iterable, and one whose second platform is \<^verbatim>\<open>null\<close>.
\<close>

definition brokenData :: levelData where
  "brokenData =
     \<lparr>ld_platforms = Items [Some (descr ''grass'' 0 0 0), Some (descr ''platform'' 5 2 0)],
      ld_collectibles = NotIterable, ld_hazards = Items [Some (descr ''spike'' 20 1 0)],
      ld_environment = Absent, ld_interactive = Absent, ld_spawn = None, ld_goal = None\<rparr>"

definition nullEntryData :: levelData where
  "nullEntryData =
     \<lparr>ld_platforms = Items [Some (descr ''grass'' 0 0 0), None, Some (descr ''platform'' 5 2 0)],
      ld_collectibles = Items [Some (descr ''coin-gold'' 2 2 0)], ld_hazards = Absent,
      ld_environment = Absent, ld_interactive = Absent, ld_spawn = None, ld_goal = None\<rparr>"

text \<open>
  A server that has the descriptor of level 1, the malformed descriptors as levels 3 and
  5, the JSON value \<^verbatim>\<open>null\<close> as level 4, and nothing else.
\<close>

definition exampleLoader :: "int \<Rightarrow> fetched" where
  "exampleLoader n =
     (if n = 1 then Parsed (Some fiveCoinData)
      else if n = 3 then Parsed (Some brokenData)
      else if n = 4 then Parsed None
      else if n = 5 then Parsed (Some nullEntryData)
      else Rejected)"

definition loadedGame :: Game where
  "loadedGame = snd (Game_loadLevel exampleLoader 1 newGame)"

definition collectAll :: "Level \<Rightarrow> Level" where
  "collectAll lv =
     lv\<lparr>collectibles := map (\<lambda>c. c\<lparr>userData_collected := True\<rparr>) (collectibles lv)\<rparr>"

text \<open>A descriptor without collectibles and without a goal.\<close>

definition bareData :: levelData where
  "bareData =
     \<lparr>ld_platforms = Items [Some (descr ''grass'' 0 0 0)], ld_collectibles = Absent,
      ld_hazards = Absent, ld_environment = Absent, ld_interactive = Absent,
      ld_spawn = None, ld_goal = None\<rparr>"

text \<open>A frame without keys in which three spikes sit where the new player is.\<close>

definition noKeys :: keys where
  "noKeys = \<lparr>key_left = False, key_right = False, key_forward = False,
              key_backward = False, key_space = False, key_shift = False\<rparr>"

definition spikeFrame :: frame where
  "spikeFrame = \<lparr>fr_keys = noKeys, fr_platforms = [], fr_collectibles = [],
                 fr_hazards = [spike, spike, spike]\<rparr>"

text \<open>
  A staircase of \<open>n\<close> platforms above one another at \<open>x = 10\<close>, \<open>z = 0\<close>, the first at
  height \<open>h\<close> and each 0.9 below the one before; the loaded game with the player
  standing on the floor at the foot of the spawn point; and a frame without keys whose
  platforms are 24 such stairs, the first 2.9 below the player.
\<close>

fun stairs :: "nat \<Rightarrow> real \<Rightarrow> object3d list" where
  "stairs 0 h = []"
| "stairs (Suc n) h = createObject ''platforms'' (descr ''platform'' 10 h 0) # stairs n (h - 0.9)"

definition floorGame :: Game where
  "floorGame =
     loadedGame\<lparr>player := (player loadedGame)\<lparr>position := Vector3 10 1 0, isGrounded := True\<rparr>\<rparr>"

definition stairFrame :: frame where
  "stairFrame = \<lparr>fr_keys = noKeys, fr_platforms = stairs 24 (- 1.9), fr_collectibles = [],
                 fr_hazards = []\<rparr>"

text \<open>A platform 2.9 below the floor level, and a frame that has it.\<close>

definition lowPlatform :: object3d where
  "lowPlatform = createObject ''platforms'' (descr ''platform'' 0 (- 1.9) 0)"

definition lowFrame :: "keys \<Rightarrow> frame" where
  "lowFrame k = \<lparr>fr_keys = k, fr_platforms = [lowPlatform], fr_collectibles = [],
                 fr_hazards = []\<rparr>"

definition playerAt :: "real \<Rightarrow> real \<Rightarrow> real \<Rightarrow> Player" where
  "playerAt a b c = newPlayer\<lparr>position := Vector3 a b c\<rparr>"

section \<open>Properties\<close>

subsection \<open>Spatial helpers\<close>

lemma sqrt_less_iff_sq: "0 \<le> x \<Longrightarrow> sqrt x < t \<longleftrightarrow> (0 < t \<and> x < t\<^sup>2)" for x t :: real
  by (metis less_eq_real_def not_less real_sqrt_abs real_sqrt_less_iff real_sqrt_ge_zero
      order_less_le_trans real_sqrt_less_mono real_sqrt_unique)

lemma isColliding_sq:
  "isColliding a b (Some t) \<longleftrightarrow>
     0 < t \<and> (xc (position a) - xc (position b))\<^sup>2 + (yc (position a) - yc (position b))\<^sup>2 +
             (zc (position a) - zc (position b))\<^sup>2 < t\<^sup>2"
  by (simp add: isColliding_def distance_def sqrt_less_iff_sq)

lemma isColliding_position_cong:
  "position a = position a' \<Longrightarrow> position b = position b' \<Longrightarrow>
   isColliding a b t = isColliding a' b' t"
  by (simp add: isColliding_def)

text \<open>
  \<^bold>\<open>C6.\<close> With the default threshold, \<^verbatim>\<open>isOnPlatform(player, platform)\<close> is true exactly
  when the horizontal (x,z) distance is strictly below 3 and the vertical offset
  \<^verbatim>\<open>player.y - platform.y\<close> lies strictly between 0.5 and 3; at the boundary values
  (horizontal distance 3, vertical offset 0.5 or 3) it is false.
\<close>

theorem isOnPlatform_open_band:
  "(isOnPlatform pl platform None \<longleftrightarrow>
      sqrt ((xc (position pl) - xc (position platform))\<^sup>2 +
            (zc (position pl) - zc (position platform))\<^sup>2) < 3 \<and>
      0.5 < yc (position pl) - yc (position platform) \<and>
      yc (position pl) - yc (position platform) < 3) \<and>
   (sqrt ((xc (position pl) - xc (position platform))\<^sup>2 +
          (zc (position pl) - zc (position platform))\<^sup>2) = 3 \<longrightarrow>
      \<not> isOnPlatform pl platform None) \<and>
   (yc (position pl) - yc (position platform) = 0.5 \<longrightarrow> \<not> isOnPlatform pl platform None) \<and>
   (yc (position pl) - yc (position platform) = 3 \<longrightarrow> \<not> isOnPlatform pl platform None) \<and>
   (isOnPlatform pl platform None \<longleftrightarrow>
      (xc (position pl) - xc (position platform))\<^sup>2 +
      (zc (position pl) - zc (position platform))\<^sup>2 < 9 \<and>
      0.5 < yc (position pl) - yc (position platform) \<and>
      yc (position pl) - yc (position platform) < 3)"
proof -
  let ?d2 = "(xc (position pl) - xc (position platform))\<^sup>2 +
             (zc (position pl) - zc (position platform))\<^sup>2"
  let ?v = "yc (position pl) - yc (position platform)"
  have band: "isOnPlatform pl platform None \<longleftrightarrow> sqrt ?d2 < 3 \<and> 0.5 < ?v \<and> ?v < 3"
    by (simp add: isOnPlatform_def Let_def)
  have "0 \<le> ?d2"
    by simp
  then have "sqrt ?d2 < 3 \<longleftrightarrow> ?d2 < 9"
    by (simp add: sqrt_less_iff_sq)
  with band show ?thesis
    by auto
qed

theorem isOnPlatform_open_band_witness:
  "isOnPlatform (playerAt 0 2 0) origin_platform None \<and>
   sqrt ((xc (position (playerAt 3 2 0)) - xc (position origin_platform))\<^sup>2 +
         (zc (position (playerAt 3 2 0)) - zc (position origin_platform))\<^sup>2) = 3 \<and>
   \<not> isOnPlatform (playerAt 3 2 0) origin_platform None \<and>
   yc (position (playerAt 0 0.5 0)) - yc (position origin_platform) = 0.5 \<and>
   \<not> isOnPlatform (playerAt 0 0.5 0) origin_platform None \<and>
   yc (position (playerAt 0 3 0)) - yc (position origin_platform) = 3 \<and>
   \<not> isOnPlatform (playerAt 0 3 0) origin_platform None"
  using isOnPlatform_open_band [of "playerAt 0 2 0" origin_platform]
    isOnPlatform_open_band [of "playerAt 3 2 0" origin_platform]
    isOnPlatform_open_band [of "playerAt 0 0.5 0" origin_platform]
    isOnPlatform_open_band [of "playerAt 0 3 0" origin_platform]
  by (simp add: playerAt_def newPlayer_def origin_platform_def createObject_def
      applyTransformations_def descr_def or_num_def Vector3_def)

subsection \<open>Collectibles\<close>

lemma collectItem_position:
  "position (player (snd (collectItem c g))) = position (player g)"
  by (simp add: collectItem_def Let_def addScore_def addCoin_def addLife_def)

lemma collectItem_fst:
  "fst (collectItem c g) = c\<lparr>userData_collected := True, visible := False\<rparr>"
  by (simp add: collectItem_def Let_def)

lemma collectibleStep_position:
  "position (player (snd (collectibleStep c g))) = position (player g)"
  by (simp add: collectibleStep_def collectItem_position)

lemma collectibleStep_collected:
  "userData_collected c \<Longrightarrow> collectibleStep c g = (c, g)"
  by (simp add: collectibleStep_def)

lemma checkCollectibleCollisions_position:
  "position (player (snd (checkCollectibleCollisions cs g))) = position (player g)"
  by (induction cs arbitrary: g) (simp_all add: Let_def collectibleStep_position)

lemma checkCollectibleCollisions_collected:
  "list_all userData_collected cs \<Longrightarrow> checkCollectibleCollisions cs g = (cs, g)"
  by (induction cs arbitrary: g) (simp_all add: Let_def collectibleStep_collected)

text \<open>A collectible that went through the step once is skipped by every later step taken
  from the same player position: it is collected, or it was out of reach and still is.\<close>

lemma collectibleStep_again:
  assumes "position (player g') = position (player g)"
  shows "collectibleStep (fst (collectibleStep c g)) g' = (fst (collectibleStep c g), g')"
proof (cases "\<not> userData_collected c \<and> isColliding (player g) c (Some 1.5)")
  case True
  then have "userData_collected (fst (collectibleStep c g))"
    by (simp add: collectibleStep_def collectItem_fst)
  then show ?thesis by (rule collectibleStep_collected)
next
  case False
  then have same: "fst (collectibleStep c g) = c"
    by (auto simp add: collectibleStep_def)
  have "isColliding (player g') c (Some 1.5) = isColliding (player g) c (Some 1.5)"
    using assms by (intro isColliding_position_cong) simp_all
  with False have "collectibleStep c g' = (c, g')"
    by (auto simp add: collectibleStep_def)
  with same show ?thesis by simp
qed

lemma checkCollectibleCollisions_idem:
  "checkCollectibleCollisions (fst (checkCollectibleCollisions cs g))
      (snd (checkCollectibleCollisions cs g)) = checkCollectibleCollisions cs g"
proof (induction cs arbitrary: g)
  case Nil
  show ?case by simp
next
  case (Cons c cs)
  define r where "r = collectibleStep c g"
  define rest where "rest = checkCollectibleCollisions cs (snd r)"
  have whole: "checkCollectibleCollisions (c # cs) g = (fst r # fst rest, snd rest)"
    by (simp add: r_def rest_def Let_def)
  have "position (player (snd rest)) = position (player g)"
    by (simp add: rest_def r_def checkCollectibleCollisions_position collectibleStep_position)
  then have skip: "collectibleStep (fst r) (snd rest) = (fst r, snd rest)"
    unfolding r_def by (rule collectibleStep_again)
  have ih: "checkCollectibleCollisions (fst rest) (snd rest) = rest"
    unfolding rest_def by (rule Cons.IH)
  have "checkCollectibleCollisions (fst r # fst rest) (snd rest) = (fst r # fst rest, snd rest)"
    by (simp add: skip ih Let_def)
  then show ?case by (simp only: whole fst_conv snd_conv)
qed

text \<open>
  \<^bold>\<open>C4.\<close> Collecting a \<^verbatim>\<open>coin-gold\<close> adds exactly 100 to the score and 1 to the coin
  counter; collecting a \<^verbatim>\<open>heart\<close> adds exactly 1 life and 200 to the score. Collection
  sets the \<^verbatim>\<open>collected\<close> flag, and a collectible whose flag is set is skipped by the
  collision check whatever the distance, so no counter changes: a list of collected
  items leaves the state as it is, and running the check a second time over its own
  result changes nothing.
\<close>

theorem collectItem_counters:
  "(userData_type c = Some ''coin-gold'' \<longrightarrow>
      score (gameState (snd (collectItem c g))) = score (gameState g) + 100 \<and>
      coins (gameState (snd (collectItem c g))) = coins (gameState g) + 1 \<and>
      Player.lives (player (snd (collectItem c g))) = Player.lives (player g)) \<and>
   (userData_type c = Some ''heart'' \<longrightarrow>
      Player.lives (player (snd (collectItem c g))) = Player.lives (player g) + 1 \<and>
      score (gameState (snd (collectItem c g))) = score (gameState g) + 200 \<and>
      coins (gameState (snd (collectItem c g))) = coins (gameState g)) \<and>
   userData_collected (fst (collectItem c g)) \<and>
   (userData_collected c \<longrightarrow> collectibleStep c g = (c, g)) \<and>
   (list_all userData_collected cs \<longrightarrow> checkCollectibleCollisions cs g = (cs, g)) \<and>
   checkCollectibleCollisions (fst (checkCollectibleCollisions cs g))
      (snd (checkCollectibleCollisions cs g)) = checkCollectibleCollisions cs g"
proof -
  have gold: "userData_type c = Some ''coin-gold'' \<Longrightarrow>
      score (gameState (snd (collectItem c g))) = score (gameState g) + 100 \<and>
      coins (gameState (snd (collectItem c g))) = coins (gameState g) + 1 \<and>
      Player.lives (player (snd (collectItem c g))) = Player.lives (player g)"
    by (simp add: collectItem_def Let_def or_str_def addScore_def addCoin_def)
  have heart: "userData_type c = Some ''heart'' \<Longrightarrow>
      Player.lives (player (snd (collectItem c g))) = Player.lives (player g) + 1 \<and>
      score (gameState (snd (collectItem c g))) = score (gameState g) + 200 \<and>
      coins (gameState (snd (collectItem c g))) = coins (gameState g)"
    by (simp add: collectItem_def Let_def or_str_def addScore_def addLife_def)
  have flag: "userData_collected (fst (collectItem c g))"
    by (simp add: collectItem_fst)
  show ?thesis
    using gold heart flag collectibleStep_collected [of c g]
      checkCollectibleCollisions_collected [of cs g]
      checkCollectibleCollisions_idem [of cs g]
    by blast
qed

theorem collectItem_counters_witness:
  "userData_type goldCoin = Some ''coin-gold'' \<and>
   score (gameState (snd (collectItem goldCoin newGame))) = 100 \<and>
   coins (gameState (snd (collectItem goldCoin newGame))) = 1 \<and>
   userData_type heartItem = Some ''heart'' \<and>
   Player.lives (player (snd (collectItem heartItem newGame))) = 4 \<and>
   score (gameState (snd (collectItem heartItem newGame))) = 200 \<and>
   userData_collected (fst (collectItem goldCoin newGame)) \<and>
   collectibleStep (fst (collectItem goldCoin newGame)) newGame =
     (fst (collectItem goldCoin newGame), newGame) \<and>
   list_all userData_collected [fst (collectItem goldCoin newGame)] \<and>
   checkCollectibleCollisions [fst (collectItem goldCoin newGame)] newGame =
     ([fst (collectItem goldCoin newGame)], newGame)"
proof -
  have gold: "userData_type goldCoin = Some ''coin-gold''"
    by (simp add: goldCoin_def newCollectible_def Let_def descr_def)
  have heart: "userData_type heartItem = Some ''heart''"
    by (simp add: heartItem_def newCollectible_def Let_def descr_def)
  have start: "score (gameState newGame) = 0" "coins (gameState newGame) = 0"
    "Player.lives (player newGame) = 3"
    by (simp_all add: newGame_def newGameState_def newPlayer_def)
  have flag: "userData_collected (fst (collectItem goldCoin newGame))"
    using collectItem_counters [of goldCoin newGame "[]"] by blast
  then have all: "list_all userData_collected [fst (collectItem goldCoin newGame)]"
    by simp
  show ?thesis
    using gold heart start flag all
      collectItem_counters [of goldCoin newGame "[]"]
      collectItem_counters [of heartItem newGame "[]"]
      collectItem_counters [of "fst (collectItem goldCoin newGame)" newGame
        "[fst (collectItem goldCoin newGame)]"]
    by simp
qed

subsection \<open>Hazards and damage\<close>

lemma spike_position: "position spike = Vector3 0 5 0"
  by (simp add: spike_def newHazard_def Let_def createObject_def applyTransformations_def
      descr_def or_num_def)

lemma hazardStep_damage: "hazardStep (h\<lparr>userData_damage := d\<rparr>) g = hazardStep h g"
  by (simp add: hazardStep_def isColliding_def)

lemma takeDamage_lives:
  "isAlive (player g) \<Longrightarrow> Player.lives (player (takeDamage g)) = Player.lives (player g) - 1"
  by (simp add: takeDamage_def die_def Let_def)

lemma checkHazardCollisions_damage:
  "checkHazardCollisions (map (\<lambda>h. h\<lparr>userData_damage := f h\<rparr>) hzs) g =
   checkHazardCollisions hzs g"
  unfolding checkHazardCollisions_def
  by (induction hzs arbitrary: g) (simp_all add: hazardStep_damage)

text \<open>
  \<^bold>\<open>C9.\<close> A hazard contact of a living player costs exactly one life, whatever the
  \<^verbatim>\<open>damage\<close> stored in the hazard's \<^verbatim>\<open>userData\<close>: replacing the damage of a hazard, or
  of every hazard of the list, changes neither the result of the hazard check nor that of
  the whole update.
\<close>

theorem hazard_damage_is_one_life:
  "(isAlive (player g) \<and> isColliding (player g) h (Some 1.5) \<longrightarrow>
      Player.lives (player (hazardStep h g)) = Player.lives (player g) - 1) \<and>
   hazardStep (h\<lparr>userData_damage := d\<rparr>) g = hazardStep h g \<and>
   checkHazardCollisions (map (\<lambda>h. h\<lparr>userData_damage := f h\<rparr>) hzs) g =
     checkHazardCollisions hzs g \<and>
   Player_update pfs cls (map (\<lambda>h. h\<lparr>userData_damage := f h\<rparr>) hzs) g =
     Player_update pfs cls hzs g"
proof -
  have "isAlive (player g) \<and> isColliding (player g) h (Some 1.5) \<longrightarrow>
      Player.lives (player (hazardStep h g)) = Player.lives (player g) - 1"
    by (auto simp add: hazardStep_def takeDamage_lives)
  moreover have "Player_update pfs cls (map (\<lambda>h. h\<lparr>userData_damage := f h\<rparr>) hzs) g =
     Player_update pfs cls hzs g"
    by (simp add: Player_update_def checkHazardCollisions_damage)
  ultimately show ?thesis
    by (simp add: hazardStep_damage checkHazardCollisions_damage)
qed

theorem hazard_damage_is_one_life_witness:
  "isAlive (player newGame) \<and> isColliding (player newGame) spike (Some 1.5) \<and>
   Player.lives (player (hazardStep spike newGame)) = 2 \<and>
   Player.lives (player (hazardStep (spike\<lparr>userData_damage := 7\<rparr>) newGame)) = 2"
proof -
  have alive: "isAlive (player newGame)" and three: "Player.lives (player newGame) = 3"
    by (simp_all add: newGame_def newPlayer_def)
  have contact: "isColliding (player newGame) spike (Some 1.5)"
    by (simp add: isColliding_sq spike_position newGame_def newPlayer_def Vector3_def)
  show ?thesis
    using alive three contact
      hazard_damage_is_one_life [of newGame spike 7 "\<lambda>h. 7" "[]" "[]" "[]"]
    by simp
qed

lemma takeDamage_dead: "\<not> isAlive (player g) \<Longrightarrow> takeDamage g = g"
  by (simp add: takeDamage_def)

lemma hazardStep_dead: "\<not> isAlive (player g) \<Longrightarrow> hazardStep h g = g"
  by (simp add: hazardStep_def takeDamage_dead)

lemma checkHazardCollisions_dead:
  "\<not> isAlive (player g) \<Longrightarrow> checkHazardCollisions hzs g = g"
  unfolding checkHazardCollisions_def
  by (induction hzs) (simp_all add: hazardStep_dead)

lemma takeDamage_last_life:
  assumes "isAlive (player g)" and "Player.lives (player g) = 1"
  shows "\<not> isAlive (player (takeDamage g))"
    and "Player.lives (player (takeDamage g)) = 0"
    and "pendingDeaths (takeDamage g) = pendingDeaths g + 1"
  using assms by (simp_all add: takeDamage_def die_def Let_def pendingDeaths_def)

lemma checkHazardCollisions_last_life:
  assumes "isAlive (player g)" and "Player.lives (player g) = 1"
    and "list_ex (\<lambda>h. isColliding (player g) h (Some 1.5)) hzs"
  shows "checkHazardCollisions hzs g = takeDamage g"
  using assms(3)
proof (induction hzs)
  case Nil
  then show ?case by simp
next
  case (Cons h hzs)
  show ?case
  proof (cases "isColliding (player g) h (Some 1.5)")
    case True
    then have "hazardStep h g = takeDamage g" by (simp add: hazardStep_def)
    moreover have "\<not> isAlive (player (takeDamage g))"
      using assms(1,2) by (rule takeDamage_last_life)
    ultimately show ?thesis
      using checkHazardCollisions_dead [of "takeDamage g" hzs]
      by (simp add: checkHazardCollisions_def)
  next
    case False
    then have "hazardStep h g = g" by (simp add: hazardStep_def)
    moreover from False Cons.prems have "list_ex (\<lambda>h. isColliding (player g) h (Some 1.5)) hzs"
      by simp
    ultimately show ?thesis
      using Cons.IH by (simp add: checkHazardCollisions_def)
  qed
qed

lemma Player_update_dead: "\<not> isAlive (player g) \<Longrightarrow> Player_update pfs cls hzs g = (cls, g)"
  by (simp add: Player_update_def)

lemma Player_update_alive:
  "isAlive (player g) \<Longrightarrow>
   snd (Player_update pfs cls hzs g) =
     checkBoundaries (checkHazardCollisions hzs (stateAtHazardCheck pfs cls g))"
  by (simp add: Player_update_def stateAtHazardCheck_def Let_def)

lemma checkBoundaries_dead:
  assumes "\<not> isAlive (player g)"
  shows "\<not> isAlive (player (checkBoundaries g))"
    and "Player.lives (player (checkBoundaries g)) = Player.lives (player g)"
    and "pendingDeaths (checkBoundaries g) = pendingDeaths g"
  using assms by (simp_all add: checkBoundaries_def Let_def takeDamage_dead respawn_def pendingDeaths_def)


lemma updateMovement_isAlive: "isAlive (updateMovement p) = isAlive p"
  by (simp add: updateMovement_def Let_def)

lemma updatePhysics_isAlive: "isAlive (updatePhysics p) = isAlive p"
  by (simp add: updatePhysics_def Let_def)

lemma platformStep_isAlive: "isAlive (fst (platformStep pf acc)) = isAlive (fst acc)"
  by (simp add: platformStep_def Let_def)

lemma fold_platformStep_isAlive: "isAlive (fst (fold platformStep pfs acc)) = isAlive (fst acc)"
  by (induction pfs arbitrary: acc) (simp_all add: platformStep_isAlive)

lemma checkPlatformCollisions_isAlive: "isAlive (checkPlatformCollisions pfs p) = isAlive p"
  by (simp add: checkPlatformCollisions_def Let_def fold_platformStep_isAlive)

lemma collectItem_isAlive: "isAlive (player (snd (collectItem c g))) = isAlive (player g)"
  by (simp add: collectItem_def Let_def addScore_def addCoin_def addLife_def)

lemma collectItem_timers: "timers (snd (collectItem c g)) = timers g"
  by (simp add: collectItem_def Let_def addScore_def addCoin_def addLife_def)

lemma collectibleStep_isAlive: "isAlive (player (snd (collectibleStep c g))) = isAlive (player g)"
  by (simp add: collectibleStep_def collectItem_isAlive)

lemma collectibleStep_timers: "timers (snd (collectibleStep c g)) = timers g"
  by (simp add: collectibleStep_def collectItem_timers)

lemma checkCollectibleCollisions_isAlive:
  "isAlive (player (snd (checkCollectibleCollisions cs g))) = isAlive (player g)"
  by (induction cs arbitrary: g) (simp_all add: Let_def collectibleStep_isAlive)

lemma checkCollectibleCollisions_timers:
  "timers (snd (checkCollectibleCollisions cs g)) = timers g"
  by (induction cs arbitrary: g) (simp_all add: Let_def collectibleStep_timers)

lemma stateAtHazardCheck_isAlive:
  "isAlive (player (stateAtHazardCheck pfs cls g)) = isAlive (player g)"
  by (simp add: stateAtHazardCheck_def checkCollectibleCollisions_isAlive
      checkPlatformCollisions_isAlive updatePhysics_isAlive updateMovement_isAlive)

lemma stateAtHazardCheck_pendingDeaths:
  "pendingDeaths (stateAtHazardCheck pfs cls g) = pendingDeaths g"
  by (simp add: stateAtHazardCheck_def pendingDeaths_def checkCollectibleCollisions_timers)

text \<open>
  \<^bold>\<open>C1.\<close> For a player that is not alive, \<^verbatim>\<open>update\<close> returns at once: the whole state
  (position, velocity, lives, \<^verbatim>\<open>isGrounded\<close>, \<^verbatim>\<open>isJumping\<close>, score, coins, timers) and
  every collectible are as before. A hazard contact with one life left makes the hazard
  check leave the player dead with no lives and exactly one more pending death
  notification, however many hazards touch the player, and every later \<^verbatim>\<open>update\<close> is a
  no-op. The same holds for the whole \<^verbatim>\<open>update\<close> of a living player that reaches the
  hazard check with one life and a hazard in reach.
\<close>

theorem dead_player_update_noop:
  "(\<not> isAlive (player g) \<longrightarrow> Player_update pfs cls hzs g = (cls, g)) \<and>
   (isAlive (player g) \<and> Player.lives (player g) = 1 \<and>
    list_ex (\<lambda>h. isColliding (player g) h (Some 1.5)) hzs \<longrightarrow>
      \<not> isAlive (player (checkHazardCollisions hzs g)) \<and>
      Player.lives (player (checkHazardCollisions hzs g)) = 0 \<and>
      pendingDeaths (checkHazardCollisions hzs g) = pendingDeaths g + 1 \<and>
      Player_update pfs' cls' hzs' (checkHazardCollisions hzs g) =
        (cls', checkHazardCollisions hzs g)) \<and>
   (isAlive (player g) \<and> Player.lives (player (stateAtHazardCheck pfs cls g)) = 1 \<and>
    list_ex (\<lambda>h. isColliding (player (stateAtHazardCheck pfs cls g)) h (Some 1.5)) hzs \<longrightarrow>
      \<not> isAlive (player (snd (Player_update pfs cls hzs g))) \<and>
      pendingDeaths (snd (Player_update pfs cls hzs g)) = pendingDeaths g + 1 \<and>
      Player_update pfs' cls' hzs' (snd (Player_update pfs cls hzs g)) =
        (cls', snd (Player_update pfs cls hzs g)))"
proof (intro conjI impI)
  assume "\<not> isAlive (player g)"
  then show "Player_update pfs cls hzs g = (cls, g)" by (rule Player_update_dead)
next
  assume a: "isAlive (player g) \<and> Player.lives (player g) = 1 \<and>
    list_ex (\<lambda>h. isColliding (player g) h (Some 1.5)) hzs"
  then have eq: "checkHazardCollisions hzs g = takeDamage g"
    by (intro checkHazardCollisions_last_life) simp_all
  from a show dead: "\<not> isAlive (player (checkHazardCollisions hzs g))"
    unfolding eq by (intro takeDamage_last_life) simp_all
  from a show "Player.lives (player (checkHazardCollisions hzs g)) = 0"
    unfolding eq by (intro takeDamage_last_life) simp_all
  from a show "pendingDeaths (checkHazardCollisions hzs g) = pendingDeaths g + 1"
    unfolding eq by (intro takeDamage_last_life) simp_all
  from dead show "Player_update pfs' cls' hzs' (checkHazardCollisions hzs g) =
        (cls', checkHazardCollisions hzs g)" by (rule Player_update_dead)
next
  define s where "s = stateAtHazardCheck pfs cls g"
  assume a: "isAlive (player g) \<and> Player.lives (player (stateAtHazardCheck pfs cls g)) = 1 \<and>
    list_ex (\<lambda>h. isColliding (player (stateAtHazardCheck pfs cls g)) h (Some 1.5)) hzs"
  then have alive: "isAlive (player s)" and one: "Player.lives (player s) = 1"
    and contact: "list_ex (\<lambda>h. isColliding (player s) h (Some 1.5)) hzs"
    by (simp_all add: s_def stateAtHazardCheck_isAlive)
  have eq: "checkHazardCollisions hzs s = takeDamage s"
    using alive one contact by (rule checkHazardCollisions_last_life)
  have upd: "snd (Player_update pfs cls hzs g) = checkBoundaries (takeDamage s)"
    using a by (simp add: Player_update_alive s_def [symmetric] eq)
  have dead: "\<not> isAlive (player (takeDamage s))"
    using alive one by (rule takeDamage_last_life)
  show dead': "\<not> isAlive (player (snd (Player_update pfs cls hzs g)))"
    unfolding upd using dead by (rule checkBoundaries_dead)
  have "pendingDeaths (checkBoundaries (takeDamage s)) = pendingDeaths (takeDamage s)"
    using dead by (rule checkBoundaries_dead)
  also have "\<dots> = pendingDeaths s + 1"
    using alive one by (rule takeDamage_last_life)
  also have "pendingDeaths s = pendingDeaths g"
    by (simp add: s_def stateAtHazardCheck_pendingDeaths)
  finally show "pendingDeaths (snd (Player_update pfs cls hzs g)) = pendingDeaths g + 1"
    unfolding upd .
  from dead' show "Player_update pfs' cls' hzs' (snd (Player_update pfs cls hzs g)) =
        (cls', snd (Player_update pfs cls hzs g))" by (rule Player_update_dead)
qed

theorem dead_player_update_noop_witness:
  "\<not> isAlive (player deadGame) \<and>
   Player_update [origin_platform] [goldCoin] [spike] deadGame = ([goldCoin], deadGame) \<and>
   isAlive (player lastLifeGame) \<and> Player.lives (player lastLifeGame) = 1 \<and>
   list_ex (\<lambda>h. isColliding (player lastLifeGame) h (Some 1.5)) [farSpike, spike, spike] \<and>
   \<not> isAlive (player (checkHazardCollisions [farSpike, spike, spike] lastLifeGame)) \<and>
   pendingDeaths (checkHazardCollisions [farSpike, spike, spike] lastLifeGame) = 1 \<and>
   Player.lives (player (stateAtHazardCheck [] [] lastLifeGame)) = 1 \<and>
   list_ex (\<lambda>h. isColliding (player (stateAtHazardCheck [] [] lastLifeGame)) h (Some 1.5))
     [farSpike, spike, spike] \<and>
   \<not> isAlive (player (snd (Player_update [] [] [farSpike, spike, spike] lastLifeGame))) \<and>
   pendingDeaths (snd (Player_update [] [] [farSpike, spike, spike] lastLifeGame)) = 1"
proof -
  have dead: "\<not> isAlive (player deadGame)"
    by (simp add: deadGame_def)
  have alive: "isAlive (player lastLifeGame)" and one: "Player.lives (player lastLifeGame) = 1"
    and none: "pendingDeaths lastLifeGame = 0"
    by (simp_all add: lastLifeGame_def newPlayer_def newGame_def pendingDeaths_def)
  have "isColliding (player lastLifeGame) spike (Some 1.5)"
    by (simp add: isColliding_sq spike_position lastLifeGame_def newPlayer_def Vector3_def)
  then have contact:
    "list_ex (\<lambda>h. isColliding (player lastLifeGame) h (Some 1.5)) [farSpike, spike, spike]"
    by simp
  have at_check: "player (stateAtHazardCheck [] [] lastLifeGame) =
      newPlayer\<lparr>Player.lives := 1, position := Vector3 0 4.98 0, velocity := Vector3 0 (- 0.02) 0\<rparr>"
    by (simp add: stateAtHazardCheck_def lastLifeGame_def newGame_def newPlayer_def
        checkPlatformCollisions_def updatePhysics_def updateMovement_def Let_def Vector3_def
        clamp_def)
  have one': "Player.lives (player (stateAtHazardCheck [] [] lastLifeGame)) = 1"
    by (simp add: at_check)
  have "isColliding (player (stateAtHazardCheck [] [] lastLifeGame)) spike (Some 1.5)"
    by (simp add: isColliding_sq spike_position at_check Vector3_def power2_eq_square)
  then have contact':
    "list_ex (\<lambda>h. isColliding (player (stateAtHazardCheck [] [] lastLifeGame)) h (Some 1.5))
       [farSpike, spike, spike]"
    by simp
  show ?thesis
    using dead alive one none contact one' contact'
      dead_player_update_noop [of deadGame "[origin_platform]" "[goldCoin]" "[spike]"]
      dead_player_update_noop [of lastLifeGame "[]" "[]" "[farSpike, spike, spike]"]
    by simp
qed

subsection \<open>Jumping\<close>

lemma updateMovement_jump:
  assumes "key_space (keys p)" and "isGrounded p" and "\<not> isJumping p"
  shows "yc (velocity (updateMovement p)) = jumpForce p"
    and "\<not> isGrounded (updateMovement p)"
    and "isJumping (updateMovement p)"
  using assms by (simp_all add: updateMovement_def Let_def)

lemma updateMovement_no_jump:
  assumes "\<not> (key_space (keys p) \<and> isGrounded p \<and> \<not> isJumping p)"
  shows "yc (velocity (updateMovement p)) = yc (velocity p)"
    and "isGrounded (updateMovement p) = isGrounded p"
    and "isJumping (updateMovement p) = isJumping p"
  using assms by (auto simp add: updateMovement_def Let_def)

lemma tick_alive:
  "isAlive (player g) \<Longrightarrow>
   tick fr g = checkBoundaries (checkHazardCollisions (fr_hazards fr)
     (snd (checkCollectibleCollisions (fr_collectibles fr)
        (g\<lparr>player := checkPlatformCollisions (fr_platforms fr)
              (updatePhysics (updateMovement ((player g)\<lparr>keys := fr_keys fr\<rparr>)))\<rparr>))))"
  by (simp add: tick_def Player_update_def Let_def)

text \<open>
  A whole frame with the jump key held, for the new player standing on the floor: the
  movement phase sets the vertical velocity to \<^verbatim>\<open>jumpForce\<close> (0.4), and the physics phase
  of the same frame adds gravity before the position is integrated, so the frame ends
  with vertical velocity 0.38 at height 1.38.
\<close>

lemma jump_tick_example:
  "player (tick (emptyFrame spaceHeld) groundedGame) =
     newPlayer\<lparr>position := Vector3 0 1.38 0, velocity := Vector3 0 0.38 0,
               isGrounded := False, isJumping := True, keys := spaceHeld\<rparr>"
  by (simp add: tick_alive groundedGame_def newGame_def newPlayer_def emptyFrame_def
      spaceHeld_def checkBoundaries_def checkHazardCollisions_def checkPlatformCollisions_def
      updatePhysics_def updateMovement_def Let_def Vector3_def clamp_def)

text \<open>The rest of the frame after a jump: a rising player lands on no platform, the
  collectibles leave the motion of the player alone, hazards out of reach and the
  boundary check above the world's depth do so too.\<close>

lemma platformStep_rising: "0 < yc (velocity (fst acc)) \<Longrightarrow> platformStep pf acc = acc"
  by (simp add: platformStep_def Let_def)

lemma fold_platformStep_rising:
  "0 < yc (velocity (fst acc)) \<Longrightarrow> fold platformStep pfs acc = acc"
  by (induction pfs) (simp_all add: platformStep_rising)

lemma checkPlatformCollisions_rising:
  "0 < yc (velocity p) \<Longrightarrow> \<not> isGrounded p \<Longrightarrow> checkPlatformCollisions pfs p = p"
  by (simp add: checkPlatformCollisions_def Let_def fold_platformStep_rising)

lemma collectItem_motion:
  "velocity (player (snd (collectItem c g))) = velocity (player g) \<and>
   isGrounded (player (snd (collectItem c g))) = isGrounded (player g) \<and>
   isJumping (player (snd (collectItem c g))) = isJumping (player g)"
  by (simp add: collectItem_def Let_def addScore_def addCoin_def addLife_def)

lemma collectibleStep_motion:
  "velocity (player (snd (collectibleStep c g))) = velocity (player g) \<and>
   isGrounded (player (snd (collectibleStep c g))) = isGrounded (player g) \<and>
   isJumping (player (snd (collectibleStep c g))) = isJumping (player g)"
  by (simp add: collectibleStep_def collectItem_motion)

lemma checkCollectibleCollisions_motion:
  "velocity (player (snd (checkCollectibleCollisions cs g))) = velocity (player g) \<and>
   isGrounded (player (snd (checkCollectibleCollisions cs g))) = isGrounded (player g) \<and>
   isJumping (player (snd (checkCollectibleCollisions cs g))) = isJumping (player g)"
  by (induction cs arbitrary: g) (simp_all add: Let_def collectibleStep_motion)

lemma checkHazardCollisions_no_contact:
  "\<not> list_ex (\<lambda>h. isColliding (player g) h (Some 1.5)) hzs \<Longrightarrow>
   checkHazardCollisions hzs g = g"
  unfolding checkHazardCollisions_def
  by (induction hzs) (auto simp add: hazardStep_def)

lemma checkBoundaries_inside:
  "- 20 \<le> yc (position (player g)) \<Longrightarrow>
   velocity (player (checkBoundaries g)) = velocity (player g) \<and>
   isGrounded (player (checkBoundaries g)) = isGrounded (player g) \<and>
   isJumping (player (checkBoundaries g)) = isJumping (player g)"
  by (simp add: checkBoundaries_def Let_def)

lemma updatePhysics_jump:
  assumes "key_space (keys p)" and "isGrounded p" and "\<not> isJumping p"
    and "1 < yc (position p) + (jumpForce p + gravity p)"
  shows "yc (velocity (updatePhysics (updateMovement p))) = jumpForce p + gravity p"
    and "\<not> isGrounded (updatePhysics (updateMovement p))"
    and "isJumping (updatePhysics (updateMovement p))"
    and "yc (position (updatePhysics (updateMovement p))) =
           yc (position p) + (jumpForce p + gravity p)"
  using assms by (simp_all add: updatePhysics_def updateMovement_def Let_def)

text \<open>The end of a frame in which the jump is triggered, when the player rises clear of
  the floor and meets no hazard.\<close>

lemma jump_tick_end:
  assumes alive: "isAlive (player g)"
    and jump: "key_space (fr_keys fr)" "isGrounded (player g)" "\<not> isJumping (player g)"
    and rising: "0 < jumpForce (player g) + gravity (player g)"
    and clear: "1 < yc (position (player g)) + (jumpForce (player g) + gravity (player g))"
    and safe: "\<not> list_ex (\<lambda>h. isColliding
                 (player (stateAtHazardCheck (fr_platforms fr) (fr_collectibles fr)
                            (g\<lparr>player := (player g)\<lparr>keys := fr_keys fr\<rparr>\<rparr>))) h (Some 1.5))
               (fr_hazards fr)"
  shows "yc (velocity (player (tick fr g))) = jumpForce (player g) + gravity (player g) \<and>
         \<not> isGrounded (player (tick fr g)) \<and> isJumping (player (tick fr g))"
proof -
  define p where "p = (player g)\<lparr>keys := fr_keys fr\<rparr>"
  define q where "q = updatePhysics (updateMovement p)"
  define s where "s = stateAtHazardCheck (fr_platforms fr) (fr_collectibles fr)
                        (g\<lparr>player := p\<rparr>)"
  have p: "key_space (keys p)" "isGrounded p" "\<not> isJumping p"
    "1 < yc (position p) + (jumpForce p + gravity p)"
    "jumpForce p + gravity p = jumpForce (player g) + gravity (player g)"
    using jump clear by (simp_all add: p_def)
  note phys = updatePhysics_jump [OF p(1,2,3,4), folded q_def]
  have up: "0 < yc (velocity q)"
    using phys(1) p(5) rising by simp
  have plat: "checkPlatformCollisions (fr_platforms fr) q = q"
    using up phys(2) by (rule checkPlatformCollisions_rising)
  have s_player: "velocity (player s) = velocity q \<and> isGrounded (player s) = isGrounded q \<and>
      isJumping (player s) = isJumping q"
    using checkCollectibleCollisions_motion
      [of "fr_collectibles fr" "g\<lparr>player := q\<rparr>"]
    by (simp add: s_def stateAtHazardCheck_def q_def [symmetric] plat)
  have s_pos: "position (player s) = position q"
    using checkCollectibleCollisions_position [of "fr_collectibles fr" "g\<lparr>player := q\<rparr>"]
    by (simp add: s_def stateAtHazardCheck_def q_def [symmetric] plat)
  have haz: "checkHazardCollisions (fr_hazards fr) s = s"
    using safe unfolding p_def [symmetric] s_def [symmetric]
    by (rule checkHazardCollisions_no_contact)
  have "isAlive (player (g\<lparr>player := p\<rparr>))"
    using alive by (simp add: p_def)
  then have "snd (Player_update (fr_platforms fr) (fr_collectibles fr) (fr_hazards fr)
                    (g\<lparr>player := p\<rparr>)) =
             checkBoundaries (checkHazardCollisions (fr_hazards fr) s)"
    unfolding s_def by (rule Player_update_alive)
  then have t: "tick fr g = checkBoundaries s"
    by (simp add: tick_def p_def haz)
  have "- 20 \<le> yc (position (player s))"
    using phys(4) p(4) by (simp add: s_pos)
  then have "velocity (player (checkBoundaries s)) = velocity (player s) \<and>
      isGrounded (player (checkBoundaries s)) = isGrounded (player s) \<and>
      isJumping (player (checkBoundaries s)) = isJumping (player s)"
    by (rule checkBoundaries_inside)
  with s_player phys p(5) show ?thesis
    by (simp add: t)
qed

text \<open>
  \<^bold>\<open>C5\<close> (amended). After any sequence of frames, the next frame of a living player
  starts with \<^verbatim>\<open>updateMovement\<close> on the key state of that frame. If the jump key is held
  and the player is grounded and not jumping, \<^verbatim>\<open>updateMovement\<close> sets the vertical
  velocity to exactly \<^verbatim>\<open>jumpForce\<close>, clears \<^verbatim>\<open>isGrounded\<close> and sets \<^verbatim>\<open>isJumping\<close>;
  \<^verbatim>\<open>updatePhysics\<close> adds gravity in the same frame, so that the frame ends with vertical
  velocity \<^verbatim>\<open>jumpForce + gravity\<close>, \<^verbatim>\<open>isGrounded\<close> false and \<^verbatim>\<open>isJumping\<close> true, provided
  \<^verbatim>\<open>jumpForce + gravity\<close> is positive, the new height is above the floor level 1 and no
  hazard is in reach at the hazard check. While \<^verbatim>\<open>isJumping\<close> is set, or the player is not
  grounded, \<^verbatim>\<open>updateMovement\<close> leaves the vertical velocity and \<^verbatim>\<open>isJumping\<close> as they are,
  whatever the keys: no second impulse is accepted.
\<close>

theorem jump_impulse:
  "(isAlive (player (run frs g)) \<longrightarrow>
      tick fr (run frs g) =
        checkBoundaries (checkHazardCollisions (fr_hazards fr)
          (snd (checkCollectibleCollisions (fr_collectibles fr)
             ((run frs g)\<lparr>player := checkPlatformCollisions (fr_platforms fr)
                (updatePhysics (updateMovement
                   ((player (run frs g))\<lparr>keys := fr_keys fr\<rparr>)))\<rparr>))))) \<and>
   (key_space (fr_keys fr) \<and> isGrounded (player (run frs g)) \<and>
    \<not> isJumping (player (run frs g)) \<longrightarrow>
      yc (velocity (updateMovement ((player (run frs g))\<lparr>keys := fr_keys fr\<rparr>))) =
        jumpForce (player (run frs g)) \<and>
      \<not> isGrounded (updateMovement ((player (run frs g))\<lparr>keys := fr_keys fr\<rparr>)) \<and>
      isJumping (updateMovement ((player (run frs g))\<lparr>keys := fr_keys fr\<rparr>))) \<and>
   (isAlive (player (run frs g)) \<and> key_space (fr_keys fr) \<and>
    isGrounded (player (run frs g)) \<and> \<not> isJumping (player (run frs g)) \<and>
    0 < jumpForce (player (run frs g)) + gravity (player (run frs g)) \<and>
    1 < yc (position (player (run frs g))) +
          (jumpForce (player (run frs g)) + gravity (player (run frs g))) \<and>
    \<not> list_ex (\<lambda>h. isColliding
          (player (stateAtHazardCheck (fr_platforms fr) (fr_collectibles fr)
                     ((run frs g)\<lparr>player := (player (run frs g))\<lparr>keys := fr_keys fr\<rparr>\<rparr>)))
          h (Some 1.5)) (fr_hazards fr) \<longrightarrow>
      yc (velocity (player (tick fr (run frs g)))) =
        jumpForce (player (run frs g)) + gravity (player (run frs g)) \<and>
      \<not> isGrounded (player (tick fr (run frs g))) \<and>
      isJumping (player (tick fr (run frs g)))) \<and>
   (isJumping (player (run frs g)) \<or> \<not> isGrounded (player (run frs g)) \<longrightarrow>
      yc (velocity (updateMovement ((player (run frs g))\<lparr>keys := fr_keys fr\<rparr>))) =
        yc (velocity (player (run frs g))) \<and>
      isJumping (updateMovement ((player (run frs g))\<lparr>keys := fr_keys fr\<rparr>)) =
        isJumping (player (run frs g)))"
proof -
  let ?G = "run frs g"
  let ?p = "(player ?G)\<lparr>keys := fr_keys fr\<rparr>"
  have first: "isAlive (player ?G) \<longrightarrow>
      tick fr ?G =
        checkBoundaries (checkHazardCollisions (fr_hazards fr)
          (snd (checkCollectibleCollisions (fr_collectibles fr)
             (?G\<lparr>player := checkPlatformCollisions (fr_platforms fr)
                (updatePhysics (updateMovement ?p))\<rparr>))))"
    using tick_alive [of ?G fr] by blast
  have trigger: "key_space (fr_keys fr) \<and> isGrounded (player ?G) \<and> \<not> isJumping (player ?G) \<longrightarrow>
      yc (velocity (updateMovement ?p)) = jumpForce (player ?G) \<and>
      \<not> isGrounded (updateMovement ?p) \<and> isJumping (updateMovement ?p)"
    using updateMovement_jump [of ?p] by simp
  have no_second: "isJumping (player ?G) \<or> \<not> isGrounded (player ?G) \<longrightarrow>
      yc (velocity (updateMovement ?p)) = yc (velocity (player ?G)) \<and>
      isJumping (updateMovement ?p) = isJumping (player ?G)"
    using updateMovement_no_jump [of ?p] by auto
  show ?thesis
    using first trigger no_second jump_tick_end [of ?G fr] by blast
qed

theorem jump_impulse_witness:
  "isAlive (player (run [] groundedGame)) \<and>
   key_space (fr_keys (emptyFrame spaceHeld)) \<and> isGrounded (player (run [] groundedGame)) \<and>
   \<not> isJumping (player (run [] groundedGame)) \<and>
   yc (velocity (updateMovement
      ((player (run [] groundedGame))\<lparr>keys := fr_keys (emptyFrame spaceHeld)\<rparr>))) = 0.4 \<and>
   \<not> isGrounded (updateMovement
      ((player (run [] groundedGame))\<lparr>keys := fr_keys (emptyFrame spaceHeld)\<rparr>)) \<and>
   0 < jumpForce (player (run [] groundedGame)) + gravity (player (run [] groundedGame)) \<and>
   1 < yc (position (player (run [] groundedGame))) +
         (jumpForce (player (run [] groundedGame)) + gravity (player (run [] groundedGame))) \<and>
   \<not> list_ex (\<lambda>h. isColliding
         (player (stateAtHazardCheck (fr_platforms (emptyFrame spaceHeld))
                    (fr_collectibles (emptyFrame spaceHeld))
                    ((run [] groundedGame)\<lparr>player := (player (run [] groundedGame))
                        \<lparr>keys := fr_keys (emptyFrame spaceHeld)\<rparr>\<rparr>)))
         h (Some 1.5)) (fr_hazards (emptyFrame spaceHeld)) \<and>
   yc (velocity (player (tick (emptyFrame spaceHeld) (run [] groundedGame)))) = 0.38 \<and>
   \<not> isGrounded (player (tick (emptyFrame spaceHeld) (run [] groundedGame))) \<and>
   isJumping (player (tick (emptyFrame spaceHeld) (run [] groundedGame))) \<and>
   isJumping (player (run [emptyFrame spaceHeld] groundedGame)) \<and>
   yc (velocity (updateMovement ((player (run [emptyFrame spaceHeld] groundedGame))
      \<lparr>keys := fr_keys (emptyFrame spaceHeld)\<rparr>))) = 0.38"
proof -
  let ?fr = "emptyFrame spaceHeld"
  have start: "run [] groundedGame = groundedGame"
    by (simp add: run_def)
  have st: "isAlive (player groundedGame)" "isGrounded (player groundedGame)"
    "\<not> isJumping (player groundedGame)"
    by (simp_all add: groundedGame_def newPlayer_def)
  have num: "jumpForce (player groundedGame) = 0.4"
    "jumpForce (player groundedGame) + gravity (player groundedGame) = 0.38"
    "0 < jumpForce (player groundedGame) + gravity (player groundedGame)"
    "1 < yc (position (player groundedGame)) +
           (jumpForce (player groundedGame) + gravity (player groundedGame))"
    by (simp_all add: groundedGame_def newPlayer_def Vector3_def)
  have sp: "key_space (fr_keys ?fr)"
    by (simp add: emptyFrame_def spaceHeld_def)
  have safe: "\<not> list_ex (\<lambda>h. isColliding
         (player (stateAtHazardCheck (fr_platforms ?fr) (fr_collectibles ?fr)
                    (groundedGame\<lparr>player := (player groundedGame)\<lparr>keys := fr_keys ?fr\<rparr>\<rparr>)))
         h (Some 1.5)) (fr_hazards ?fr)"
    by (simp add: emptyFrame_def)
  have after: "player (run [?fr] groundedGame) =
     newPlayer\<lparr>position := Vector3 0 1.38 0, velocity := Vector3 0 0.38 0,
               isGrounded := False, isJumping := True, keys := spaceHeld\<rparr>"
    by (simp add: run_def jump_tick_example)
  have air: "isJumping (player (run [?fr] groundedGame))"
    "yc (velocity (player (run [?fr] groundedGame))) = 0.38"
    by (simp_all add: after Vector3_def)
  note first = jump_impulse [of "[]" groundedGame ?fr, unfolded start]
  note second = jump_impulse [of "[?fr]" groundedGame ?fr]
  from first st sp
  have trigger: "yc (velocity (updateMovement ((player groundedGame)\<lparr>keys := fr_keys ?fr\<rparr>))) =
      jumpForce (player groundedGame)"
    "\<not> isGrounded (updateMovement ((player groundedGame)\<lparr>keys := fr_keys ?fr\<rparr>))"
    by blast+
  from first st sp num(3,4) safe
  have end_of_frame: "yc (velocity (player (tick ?fr groundedGame))) =
      jumpForce (player groundedGame) + gravity (player groundedGame)"
    "\<not> isGrounded (player (tick ?fr groundedGame))"
    "isJumping (player (tick ?fr groundedGame))"
    by blast+
  from second air(1)
  have "yc (velocity (updateMovement ((player (run [?fr] groundedGame))\<lparr>keys := fr_keys ?fr\<rparr>))) =
      yc (velocity (player (run [?fr] groundedGame)))"
    by blast
  with air(2)
  have no_second: "yc (velocity (updateMovement
      ((player (run [?fr] groundedGame))\<lparr>keys := fr_keys ?fr\<rparr>))) = 0.38"
    by simp
  show ?thesis
    unfolding start
    using st sp num(3,4) safe trigger(2) end_of_frame(2,3) air(1) no_second
      trigger(1) [unfolded num(1)] end_of_frame(1) [unfolded num(2)]
    by (intro conjI)
qed

text \<open>
  Without the amendment the statement fails at the end of the frame. For the new player
  standing on the floor with the jump key held, the frame ends with vertical velocity
  0.38, not \<^verbatim>\<open>jumpForce\<close> = 0.4. For the player standing on a platform at height -1.9
  (at \<open>y = 0.1\<close>, reached in one frame from the floor), the frame with the jump key held
  ends with vertical velocity 0 and the player grounded and not jumping: the jump leaves
  the player below the floor level 1, where \<^verbatim>\<open>updatePhysics\<close> puts the player on the floor
  and the platform check back on the platform.
\<close>

lemma lowFrame_landing:
  "player (run [lowFrame noKeys] groundedGame) =
     newPlayer\<lparr>position := Vector3 0 0.1 0, isGrounded := True\<rparr>"
  by (simp add: run_def tick_alive groundedGame_def newGame_def newPlayer_def lowFrame_def
      lowPlatform_def createObject_def applyTransformations_def descr_def or_num_def
      noKeys_def checkBoundaries_def checkHazardCollisions_def checkPlatformCollisions_def
      platformStep_def isOnPlatform_def updatePhysics_def updateMovement_def Let_def
      Vector3_def clamp_def)

lemma lowFrame_jump:
  "player (tick (lowFrame spaceHeld) (run [lowFrame noKeys] groundedGame)) =
     newPlayer\<lparr>position := Vector3 0 0.1 0, isGrounded := True, keys := spaceHeld\<rparr>"
proof -
  define G where "G = run [lowFrame noKeys] groundedGame"
  have pl: "player G = newPlayer\<lparr>position := Vector3 0 0.1 0, isGrounded := True\<rparr>"
    unfolding G_def by (rule lowFrame_landing)
  have alive: "isAlive (player G)"
    by (simp add: pl newPlayer_def)
  have landed: "checkPlatformCollisions (fr_platforms (lowFrame spaceHeld))
      (updatePhysics (updateMovement ((player G)\<lparr>keys := fr_keys (lowFrame spaceHeld)\<rparr>))) =
      newPlayer\<lparr>position := Vector3 0 0.1 0, isGrounded := True, keys := spaceHeld\<rparr>"
    by (simp add: pl newPlayer_def lowFrame_def lowPlatform_def createObject_def
        applyTransformations_def descr_def or_num_def spaceHeld_def
        checkPlatformCollisions_def platformStep_def isOnPlatform_def updatePhysics_def
        updateMovement_def Let_def Vector3_def clamp_def)
  have "tick (lowFrame spaceHeld) G =
      checkBoundaries (G\<lparr>player :=
        newPlayer\<lparr>position := Vector3 0 0.1 0, isGrounded := True, keys := spaceHeld\<rparr>\<rparr>)"
    unfolding tick_alive [OF alive] landed
    by (simp add: lowFrame_def checkHazardCollisions_def)
  then show ?thesis
    unfolding G_def [symmetric]
    by (simp add: checkBoundaries_def Let_def newPlayer_def Vector3_def clamp_def)
qed

theorem jump_tick_not_jumpForce:
  "isAlive (player groundedGame) = True \<and>
   key_space (fr_keys (emptyFrame spaceHeld)) = True \<and>
   isGrounded (player groundedGame) = True \<and>
   isJumping (player groundedGame) = False \<and>
   jumpForce (player groundedGame) = 0.4 \<and>
   yc (velocity (player (tick (emptyFrame spaceHeld) groundedGame))) = 0.38 \<and>
   yc (velocity (player (tick (emptyFrame spaceHeld) groundedGame))) \<noteq>
     jumpForce (player groundedGame) \<and>
   isAlive (player (run [lowFrame noKeys] groundedGame)) = True \<and>
   key_space (fr_keys (lowFrame spaceHeld)) = True \<and>
   isGrounded (player (run [lowFrame noKeys] groundedGame)) = True \<and>
   isJumping (player (run [lowFrame noKeys] groundedGame)) = False \<and>
   yc (velocity (player (tick (lowFrame spaceHeld) (run [lowFrame noKeys] groundedGame)))) = 0 \<and>
   isGrounded (player (tick (lowFrame spaceHeld) (run [lowFrame noKeys] groundedGame))) = True \<and>
   isJumping (player (tick (lowFrame spaceHeld) (run [lowFrame noKeys] groundedGame))) = False"
proof -
  have floor: "isAlive (player groundedGame) = True" "isGrounded (player groundedGame) = True"
    "isJumping (player groundedGame) = False" "jumpForce (player groundedGame) = 0.4"
    by (simp_all add: groundedGame_def newPlayer_def)
  have held: "key_space (fr_keys (emptyFrame spaceHeld)) = True"
    "key_space (fr_keys (lowFrame spaceHeld)) = True"
    by (simp_all add: emptyFrame_def lowFrame_def spaceHeld_def)
  have slow: "yc (velocity (player (tick (emptyFrame spaceHeld) groundedGame))) = 0.38"
    by (simp add: jump_tick_example Vector3_def)
  then have differ: "yc (velocity (player (tick (emptyFrame spaceHeld) groundedGame))) \<noteq>
      jumpForce (player groundedGame)"
    by (simp add: floor(4))
  have low: "isAlive (player (run [lowFrame noKeys] groundedGame)) = True"
    "isGrounded (player (run [lowFrame noKeys] groundedGame)) = True"
    "isJumping (player (run [lowFrame noKeys] groundedGame)) = False"
    by (simp_all add: lowFrame_landing newPlayer_def)
  have again:
    "yc (velocity (player (tick (lowFrame spaceHeld) (run [lowFrame noKeys] groundedGame)))) = 0"
    "isGrounded (player (tick (lowFrame spaceHeld) (run [lowFrame noKeys] groundedGame))) = True"
    "isJumping (player (tick (lowFrame spaceHeld) (run [lowFrame noKeys] groundedGame))) = False"
    by (simp_all add: lowFrame_jump newPlayer_def Vector3_def)
  show ?thesis
    using floor held slow differ low again by (intro conjI)
qed

subsection \<open>Loading a level and its goal\<close>

lemma checkLevelComplete_coins:
  "goal_type (getLevelGoal lv) = Some ''collect_all_coins'' \<Longrightarrow>
   checkLevelComplete lv pl \<longleftrightarrow>
     totalCoins lv \<le> length (filter (\<lambda>item. type_includes (userData_type item) ''coin'' \<and>
                                          userData_collected item) (collectibles lv))"
  by (simp add: checkLevelComplete_def Let_def)

lemma getLevelGoal_collectibles:
  "getLevelGoal (lv\<lparr>collectibles := cs\<rparr>) = getLevelGoal lv"
  by (simp add: getLevelGoal_def)

lemma clearLevel_idem: "clearLevel (clearLevel lv) = clearLevel lv"
  by (simp add: clearLevel_def)

lemma Level_loadLevel_clear:
  "Level_loadLevel loadJSON n (clearLevel lv) = Level_loadLevel loadJSON n lv"
  by (simp add: Level_loadLevel_def clearLevel_idem)

lemma Level_loadLevel_Rejected:
  "loadJSON n = Rejected \<Longrightarrow> Level_loadLevel loadJSON n lv = (False, clearLevel lv)"
  by (simp add: Level_loadLevel_def)

lemma Level_loadLevel_null:
  "loadJSON n = Parsed None \<Longrightarrow>
   Level_loadLevel loadJSON n lv =
     (False, (clearLevel lv)\<lparr>levelData := None, Level.currentLevel := n\<rparr>)"
  by (simp add: Level_loadLevel_def createPlatforms_def)

text \<open>The loop of a \<^verbatim>\<open>create...\<close> method in closed form, and the methods themselves.\<close>

lemma forOf_eq:
  "forOf mk ds acc =
     (if list_all (\<lambda>e. e \<noteq> None) ds then Inr (acc @ map mk (beforeNull ds))
      else Inl (TypeError, acc @ map mk (beforeNull ds)))"
  by (induction mk ds acc rule: forOf.induct) simp_all

lemma createPlatforms_eq:
  "levelData this = Some d \<Longrightarrow>
   createPlatforms this =
     (if loopCompletes (ld_platforms d)
      then Inr (this\<lparr>platforms :=
                  platforms this @ map (createObject ''platforms'') (entries (ld_platforms d))\<rparr>)
      else Inl (TypeError, this\<lparr>platforms :=
                  platforms this @ map (createObject ''platforms'') (entries (ld_platforms d))\<rparr>))"
  by (simp add: createPlatforms_def forOf_eq loopCompletes_def entries_def split: category.splits)

lemma createCollectibles_eq:
  "levelData this = Some d \<Longrightarrow>
   createCollectibles this =
     (if loopCompletes (ld_collectibles d)
      then Inr (this\<lparr>collectibles :=
                  collectibles this @ map newCollectible (entries (ld_collectibles d))\<rparr>)
      else Inl (TypeError, this\<lparr>collectibles :=
                  collectibles this @ map newCollectible (entries (ld_collectibles d))\<rparr>))"
  by (simp add: createCollectibles_def forOf_eq loopCompletes_def entries_def split: category.splits)

lemma createHazards_eq:
  "levelData this = Some d \<Longrightarrow>
   createHazards this =
     (if loopCompletes (ld_hazards d)
      then Inr (this\<lparr>hazards := hazards this @ map newHazard (entries (ld_hazards d))\<rparr>)
      else Inl (TypeError,
                this\<lparr>hazards := hazards this @ map newHazard (entries (ld_hazards d))\<rparr>))"
  by (simp add: createHazards_def forOf_eq loopCompletes_def entries_def split: category.splits)

lemma createEnvironment_eq:
  "levelData this = Some d \<Longrightarrow>
   createEnvironment this =
     (if loopCompletes (ld_environment d)
      then Inr (this\<lparr>environment :=
                  environment this @
                  map (createObject ''environment'') (entries (ld_environment d))\<rparr>)
      else Inl (TypeError, this\<lparr>environment :=
                  environment this @
                  map (createObject ''environment'') (entries (ld_environment d))\<rparr>))"
  by (simp add: createEnvironment_def forOf_eq loopCompletes_def entries_def split: category.splits)

lemma createInteractive_eq:
  "levelData this = Some d \<Longrightarrow>
   createInteractive this =
     (if loopCompletes (ld_interactive d)
      then Inr (this\<lparr>interactive :=
                  interactive this @ map newInteractive (entries (ld_interactive d))\<rparr>)
      else Inl (TypeError, this\<lparr>interactive :=
                  interactive this @ map newInteractive (entries (ld_interactive d))\<rparr>))"
  by (simp add: createInteractive_def forOf_eq loopCompletes_def entries_def split: category.splits)

text \<open>
  The level after \<^verbatim>\<open>loadLevel\<close> on a descriptor that parsed to an object: every array is
  built as far as its loop gets, and an array whose loop raises ends the construction.
\<close>

lemma Level_loadLevel_Parsed:
  "loadJSON n = Parsed (Some d) \<Longrightarrow>
   Level_loadLevel loadJSON n lv =
     (wellFormed d,
      \<lparr>platforms = map (createObject ''platforms'') (entries (ld_platforms d)),
       collectibles =
         (if loopCompletes (ld_platforms d)
          then map newCollectible (entries (ld_collectibles d)) else []),
       hazards =
         (if loopCompletes (ld_platforms d) \<and> loopCompletes (ld_collectibles d)
          then map newHazard (entries (ld_hazards d)) else []),
       environment =
         (if loopCompletes (ld_platforms d) \<and> loopCompletes (ld_collectibles d) \<and>
             loopCompletes (ld_hazards d)
          then map (createObject ''environment'') (entries (ld_environment d)) else []),
       interactive =
         (if loopCompletes (ld_platforms d) \<and> loopCompletes (ld_collectibles d) \<and>
             loopCompletes (ld_hazards d) \<and> loopCompletes (ld_environment d)
          then map newInteractive (entries (ld_interactive d)) else []),
       Level.currentLevel = n, levelData = Some d,
       totalCoins =
         (if wellFormed d
          then length (filter (\<lambda>item. type_includes (userData_type item) ''coin'')
                         (map newCollectible (entries (ld_collectibles d))))
          else 0)\<rparr>)"
  by (cases lv)
     (simp add: Level_loadLevel_def clearLevel_def createPlatforms_eq createCollectibles_eq
       createHazards_eq createEnvironment_eq createInteractive_eq countTotalCoins_def
       wellFormed_def Let_def)

lemma Level_loadLevel_Some:
  "loadJSON n = Parsed (Some d) \<Longrightarrow> wellFormed d \<Longrightarrow>
   Level_loadLevel loadJSON n lv =
     (True,
      \<lparr>platforms = map (createObject ''platforms'') (entries (ld_platforms d)),
       collectibles = map newCollectible (entries (ld_collectibles d)),
       hazards = map newHazard (entries (ld_hazards d)),
       environment = map (createObject ''environment'') (entries (ld_environment d)),
       interactive = map newInteractive (entries (ld_interactive d)),
       Level.currentLevel = n, levelData = Some d,
       totalCoins = length (filter (\<lambda>item. type_includes (userData_type item) ''coin'')
                              (map newCollectible (entries (ld_collectibles d))))\<rparr>)"
  by (simp add: Level_loadLevel_Parsed wellFormed_def)

lemma exampleLoader_simps:
  "exampleLoader 1 = Parsed (Some fiveCoinData)" "exampleLoader 2 = Rejected"
  "exampleLoader 3 = Parsed (Some brokenData)" "exampleLoader 4 = Parsed None"
  "exampleLoader 5 = Parsed (Some nullEntryData)"
  by (simp_all add: exampleLoader_def)

lemma wellFormed_examples:
  "wellFormed fiveCoinData" "wellFormed bareData" "\<not> wellFormed brokenData"
  "\<not> wellFormed nullEntryData"
  by (simp_all add: wellFormed_def loopCompletes_def fiveCoinData_def bareData_def brokenData_def
      nullEntryData_def)

lemmas Level_loadLevel_example =
  Level_loadLevel_Some [of exampleLoader 1 fiveCoinData, OF exampleLoader_simps(1)
    wellFormed_examples(1)]

lemma level_loadedGame:
  "level loadedGame = snd (Level_loadLevel exampleLoader 1 newLevel)"
  by (simp add: loadedGame_def Game_loadLevel_def Let_def newGame_def showError_def
      showMessage_def)

lemma coin_types:
  "type_includes (Some ''coin-gold'') ''coin''" "type_includes (Some ''coin-silver'') ''coin''"
  "type_includes (Some ''coin-bronze'') ''coin''" "\<not> type_includes (Some ''heart'') ''coin''"
  by (simp_all add: type_includes_def)

lemma newCollectible_descr:
  "userData_type (newCollectible (descr t a b c)) = Some t"
  "userData_collected (newCollectible (descr t a b c)) = False"
  by (simp_all add: newCollectible_def Let_def descr_def)

lemma loadedGame_facts:
  "goal_type (getLevelGoal (level loadedGame)) = Some ''collect_all_coins''"
  "totalCoins (level loadedGame) = 5"
  "length (filter (\<lambda>item. type_includes (userData_type item) ''coin'') (collectibles (level loadedGame))) = 5"
  "length (filter (\<lambda>item. type_includes (userData_type item) ''coin'' \<and> userData_collected item) (collectibles (level loadedGame))) = 0"
  by (simp_all add: level_loadedGame
      Level_loadLevel_example
      getLevelGoal_def fiveCoinData_def entries_def coin_types newCollectible_descr)

text \<open>
  \<^bold>\<open>C7.\<close> With the goal \<^verbatim>\<open>collect_all_coins\<close>, \<^verbatim>\<open>checkLevelComplete\<close> is true exactly
  when the number of collected coin-type collectibles is at least the cached
  \<^verbatim>\<open>totalCoins\<close>. For a level with exactly five coin-type collectibles and the cached
  count 5 it is false while fewer than five of them are collected and true once all are;
  appending further collectibles (collected coins among them) to a complete level leaves
  it complete.
\<close>

theorem collect_all_coins_complete:
  assumes "goal_type (getLevelGoal lv) = Some ''collect_all_coins''"
  shows "(checkLevelComplete lv pl \<longleftrightarrow>
            totalCoins lv \<le> length (filter (\<lambda>item. type_includes (userData_type item) ''coin'' \<and>
                                          userData_collected item) (collectibles lv))) \<and>
         (totalCoins lv = 5 \<and>
          length (filter (\<lambda>item. type_includes (userData_type item) ''coin'')
                         (collectibles lv)) = 5 \<and>
          length (filter (\<lambda>item. type_includes (userData_type item) ''coin'' \<and>
                                  userData_collected item) (collectibles lv)) < 5 \<longrightarrow>
            \<not> checkLevelComplete lv pl) \<and>
         (totalCoins lv = 5 \<and>
          length (filter (\<lambda>item. type_includes (userData_type item) ''coin'')
                         (collectibles lv)) = 5 \<and>
          list_all (\<lambda>item. if type_includes (userData_type item) ''coin''
                            then userData_collected item else True) (collectibles lv) \<longrightarrow>
            checkLevelComplete lv pl) \<and>
         (checkLevelComplete lv pl \<longrightarrow>
            checkLevelComplete (lv\<lparr>collectibles := collectibles lv @ extra\<rparr>) pl)"
proof -
  let ?coin = "\<lambda>item::collectible. type_includes (userData_type item) ''coin''"
  let ?got = "\<lambda>item::collectible. ?coin item \<and> userData_collected item"
  have gen: "checkLevelComplete lv pl \<longleftrightarrow> totalCoins lv \<le> length (filter ?got (collectibles lv))"
    using assms by (rule checkLevelComplete_coins)
  have gen': "checkLevelComplete (lv\<lparr>collectibles := collectibles lv @ extra\<rparr>) pl \<longleftrightarrow>
      totalCoins lv \<le> length (filter ?got (collectibles lv @ extra))"
    using assms by (simp add: checkLevelComplete_coins getLevelGoal_collectibles)
  have all: "filter ?got (collectibles lv) = filter ?coin (collectibles lv)"
    if "list_all (\<lambda>item. if ?coin item then userData_collected item else True) (collectibles lv)"
    using that by (auto simp: list_all_iff intro: filter_cong)
  show ?thesis
    using gen gen' all by auto
qed

lemma collectAll_facts:
  "goal_type (getLevelGoal (collectAll (level loadedGame))) = Some ''collect_all_coins''"
  "totalCoins (collectAll (level loadedGame)) = 5"
  "length (filter (\<lambda>item. type_includes (userData_type item) ''coin'') (collectibles (collectAll (level loadedGame)))) = 5"
  "list_all (\<lambda>item. if type_includes (userData_type item) ''coin''
                            then userData_collected item else True) (collectibles (collectAll (level loadedGame)))"
  by (simp_all add: collectAll_def level_loadedGame
      Level_loadLevel_example getLevelGoal_def fiveCoinData_def
      entries_def coin_types newCollectible_descr)

theorem collect_all_coins_complete_witness:
  "goal_type (getLevelGoal (level loadedGame)) = Some ''collect_all_coins'' \<and>
   totalCoins (level loadedGame) = 5 \<and>
   length (filter (\<lambda>item. type_includes (userData_type item) ''coin'')
                  (collectibles (level loadedGame))) = 5 \<and>
   length (filter (\<lambda>item. type_includes (userData_type item) ''coin'' \<and> userData_collected item)
                  (collectibles (level loadedGame))) < 5 \<and>
   \<not> checkLevelComplete (level loadedGame) (Some (player loadedGame)) \<and>
   goal_type (getLevelGoal (collectAll (level loadedGame))) = Some ''collect_all_coins'' \<and>
   totalCoins (collectAll (level loadedGame)) = 5 \<and>
   list_all (\<lambda>item. if type_includes (userData_type item) ''coin''
                     then userData_collected item else True)
            (collectibles (collectAll (level loadedGame))) \<and>
   checkLevelComplete (collectAll (level loadedGame)) (Some (player loadedGame)) \<and>
   checkLevelComplete ((collectAll (level loadedGame))
       \<lparr>collectibles := collectibles (collectAll (level loadedGame)) @
                         [goldCoin\<lparr>userData_collected := True\<rparr>]\<rparr>) (Some (player loadedGame))"
proof -
  let ?pl = "Some (player loadedGame)"
  let ?all = "collectAll (level loadedGame)"
  have few: "length (filter (\<lambda>item. type_includes (userData_type item) ''coin'' \<and>
      userData_collected item) (collectibles (level loadedGame))) < 5"
    by (simp add: loadedGame_facts(4))
  have not_yet: "\<not> checkLevelComplete (level loadedGame) ?pl"
    using collect_all_coins_complete [OF loadedGame_facts(1), of ?pl "[]"]
      loadedGame_facts(2,3) few by blast
  have full: "checkLevelComplete ?all ?pl"
    using collect_all_coins_complete [OF collectAll_facts(1), of ?pl "[]"]
      collectAll_facts(2,3,4) by blast
  have extra: "checkLevelComplete
      (?all\<lparr>collectibles := collectibles ?all @ [goldCoin\<lparr>userData_collected := True\<rparr>]\<rparr>) ?pl"
    using collect_all_coins_complete [OF collectAll_facts(1), of ?pl
        "[goldCoin\<lparr>userData_collected := True\<rparr>]"] full by blast
  show ?thesis
    using loadedGame_facts(1,2,3) few not_yet collectAll_facts(1,2,4) full extra
    by (intro conjI)
qed

lemma getLevelGoal_default:
  "levelData lv = None \<or> (\<exists>d. levelData lv = Some d \<and> ld_goal d = None) \<Longrightarrow>
   getLevelGoal lv = \<lparr>goal_type = Some ''collect_all_coins'', goal_count = None\<rparr>"
  by (auto simp add: getLevelGoal_def)

lemma filter_no_coin:
  "list_all (\<lambda>e. \<not> type_includes (od_type e) ''coin'') ds \<Longrightarrow>
   filter (\<lambda>item. type_includes (userData_type item) ''coin'') (map newCollectible ds) = []"
  by (induction ds) (simp_all add: newCollectible_def Let_def)

text \<open>
  \<^bold>\<open>C10.\<close> Without level data, or with a descriptor that has no goal, the goal is
  \<^verbatim>\<open>collect_all_coins\<close>. With that goal and a cached \<^verbatim>\<open>totalCoins\<close> of 0,
  \<^verbatim>\<open>checkLevelComplete\<close> is true. In particular a level loaded from a descriptor without
  a goal and without coin-type collectibles is complete right after loading, with nothing
  collected; and the level that a failing load of such a descriptor leaves behind is
  complete as well.
\<close>

theorem no_coins_complete_at_once:
  "(levelData lv = None \<longrightarrow> goal_type (getLevelGoal lv) = Some ''collect_all_coins'') \<and>
   (levelData lv = Some d \<and> ld_goal d = None \<longrightarrow>
      goal_type (getLevelGoal lv) = Some ''collect_all_coins'') \<and>
   (goal_type (getLevelGoal lv) = Some ''collect_all_coins'' \<and> totalCoins lv = 0 \<longrightarrow>
      checkLevelComplete lv pl) \<and>
   (loadJSON n = Parsed (Some d) \<and> wellFormed d \<and> ld_goal d = None \<and>
    list_all (\<lambda>e. \<not> type_includes (od_type e) ''coin'') (entries (ld_collectibles d)) \<longrightarrow>
      fst (Level_loadLevel loadJSON n lv) \<and>
      totalCoins (snd (Level_loadLevel loadJSON n lv)) = 0 \<and>
      list_all (\<lambda>c. \<not> userData_collected c) (collectibles (snd (Level_loadLevel loadJSON n lv))) \<and>
      checkLevelComplete (snd (Level_loadLevel loadJSON n lv)) pl) \<and>
   (loadJSON n = Parsed (Some d) \<and> ld_goal d = None \<and>
    list_all (\<lambda>e. \<not> type_includes (od_type e) ''coin'') (entries (ld_collectibles d)) \<longrightarrow>
      totalCoins (snd (Level_loadLevel loadJSON n lv)) = 0 \<and>
      list_all (\<lambda>c. \<not> userData_collected c) (collectibles (snd (Level_loadLevel loadJSON n lv))) \<and>
      checkLevelComplete (snd (Level_loadLevel loadJSON n lv)) pl)"
proof -
  have c1: "goal_type (getLevelGoal lv) = Some ''collect_all_coins''" if "levelData lv = None"
    using that by (simp add: getLevelGoal_default)
  have c2: "goal_type (getLevelGoal lv) = Some ''collect_all_coins''"
    if "levelData lv = Some d \<and> ld_goal d = None"
    using that by (simp add: getLevelGoal_default)
  have c3: "checkLevelComplete lv pl"
    if "goal_type (getLevelGoal lv) = Some ''collect_all_coins'' \<and> totalCoins lv = 0"
    using that by (simp add: checkLevelComplete_coins)
  have c5: "totalCoins (snd (Level_loadLevel loadJSON n lv)) = 0 \<and>
      list_all (\<lambda>c. \<not> userData_collected c) (collectibles (snd (Level_loadLevel loadJSON n lv))) \<and>
      checkLevelComplete (snd (Level_loadLevel loadJSON n lv)) pl"
    if a: "loadJSON n = Parsed (Some d) \<and> ld_goal d = None \<and>
      list_all (\<lambda>e. \<not> type_includes (od_type e) ''coin'') (entries (ld_collectibles d))"
  proof -
    let ?r = "Level_loadLevel loadJSON n lv"
    note r = Level_loadLevel_Parsed [of loadJSON n d lv]
    from a have zero: "totalCoins (snd ?r) = 0"
      by (simp add: r filter_no_coin)
    from a have fresh: "list_all (\<lambda>c. \<not> userData_collected c) (collectibles (snd ?r))"
      by (auto simp add: r list_all_iff newCollectible_def Let_def)
    from a have "goal_type (getLevelGoal (snd ?r)) = Some ''collect_all_coins''"
      by (simp add: r getLevelGoal_def)
    with zero have "checkLevelComplete (snd ?r) pl"
      by (simp add: checkLevelComplete_coins)
    with zero fresh show ?thesis by simp
  qed
  have c4: "fst (Level_loadLevel loadJSON n lv)"
    if "loadJSON n = Parsed (Some d) \<and> wellFormed d"
    using that by (simp add: Level_loadLevel_Parsed)
  show ?thesis
    using c1 c2 c3 c4 c5 by blast
qed

theorem no_coins_complete_at_once_witness:
  "levelData newLevel = None \<and>
   goal_type (getLevelGoal newLevel) = Some ''collect_all_coins'' \<and>
   totalCoins newLevel = 0 \<and> checkLevelComplete newLevel None \<and>
   wellFormed bareData \<and> ld_goal bareData = None \<and>
   list_all (\<lambda>e. \<not> type_includes (od_type e) ''coin'') (entries (ld_collectibles bareData)) \<and>
   levelData (snd (Level_loadLevel (\<lambda>n. Parsed (Some bareData)) 1 newLevel)) = Some bareData \<and>
   goal_type (getLevelGoal (snd (Level_loadLevel (\<lambda>n. Parsed (Some bareData)) 1 newLevel))) =
     Some ''collect_all_coins'' \<and>
   fst (Level_loadLevel (\<lambda>n. Parsed (Some bareData)) 1 newLevel) \<and>
   totalCoins (snd (Level_loadLevel (\<lambda>n. Parsed (Some bareData)) 1 newLevel)) = 0 \<and>
   checkLevelComplete (snd (Level_loadLevel (\<lambda>n. Parsed (Some bareData)) 1 newLevel)) None \<and>
   ld_goal brokenData = None \<and>
   list_all (\<lambda>e. \<not> type_includes (od_type e) ''coin'') (entries (ld_collectibles brokenData)) \<and>
   checkLevelComplete (snd (Level_loadLevel exampleLoader 3 newLevel)) None"
proof -
  have new: "levelData newLevel = None" "totalCoins newLevel = 0"
    by (simp_all add: newLevel_def)
  have bare: "ld_goal bareData = None"
    "list_all (\<lambda>e. \<not> type_includes (od_type e) ''coin'') (entries (ld_collectibles bareData))"
    by (simp_all add: bareData_def entries_def)
  have broken: "ld_goal brokenData = None"
    "list_all (\<lambda>e. \<not> type_includes (od_type e) ''coin'') (entries (ld_collectibles brokenData))"
    by (simp_all add: brokenData_def entries_def)
  have loaded:
    "levelData (snd (Level_loadLevel (\<lambda>n. Parsed (Some bareData)) 1 newLevel)) = Some bareData"
    by (simp add: Level_loadLevel_Parsed)
  show ?thesis
    using new bare broken loaded wellFormed_examples(2) exampleLoader_simps(3)
      no_coins_complete_at_once [of newLevel bareData None "\<lambda>n. Parsed (Some bareData)" 1]
      no_coins_complete_at_once [of "snd (Level_loadLevel (\<lambda>n. Parsed (Some bareData)) 1 newLevel)"
        bareData None "\<lambda>n. Parsed (Some bareData)" 1]
      no_coins_complete_at_once [of newLevel brokenData None exampleLoader 3]
    by simp
qed

lemma Game_loadLevel_failure:
  assumes "fst (Level_loadLevel loadJSON n (level g)) = False"
  shows "Game_loadLevel loadJSON n g =
     (False, g\<lparr>level := snd (Level_loadLevel loadJSON n (level g)),
               gameMessage := Some \<lparr>mb_title = ''Error'', mb_text = FailedToLoadLevel n,
                 mb_buttonText = ''OK'', mb_onclick = Some HideMessage, mb_hidden = False\<rparr>\<rparr>)"
  using assms
  by (simp add: Game_loadLevel_def Let_def showError_def showMessage_def)

lemma Game_loadLevel_fst:
  "fst (Game_loadLevel loadJSON n g) = fst (Level_loadLevel loadJSON n (level g))"
  by (simp add: Game_loadLevel_def Let_def)

lemma Game_loadLevel_None:
  assumes "loadJSON n = Rejected"
  shows "Game_loadLevel loadJSON n g =
     (False, g\<lparr>level := clearLevel (level g),
               gameMessage := Some \<lparr>mb_title = ''Error'', mb_text = FailedToLoadLevel n,
                 mb_buttonText = ''OK'', mb_onclick = Some HideMessage, mb_hidden = False\<rparr>\<rparr>)"
  using assms
  by (simp add: Game_loadLevel_failure Level_loadLevel_Rejected)

text \<open>
  \<^bold>\<open>C8\<close> (amended). \<^verbatim>\<open>Level.loadLevel\<close> returns false when the descriptor fails to load or
  parse, and also when a parsed descriptor is malformed so that building the level
  raises: the descriptor is \<^verbatim>\<open>null\<close>, one of its arrays is not iterable, or an entry is
  \<^verbatim>\<open>null\<close>. Whenever it returns false, \<^verbatim>\<open>Game.loadLevel\<close> returns false, shows the error
  message and leaves \<^verbatim>\<open>gameState\<close> (the current-level number included), the player and
  the timers as they were. The level is not left as it was: the entities of the previous
  level are gone in every case, because \<^verbatim>\<open>clearLevel\<close> runs first and the result does not
  depend on the collections the level had.
  \<^item> When the fetch or the parse fails, the five collections are empty, \<^verbatim>\<open>totalCoins\<close> is
    0, and the level keeps its descriptor and its level number.
  \<^item> When a parsed descriptor is malformed, the level has the new descriptor and the new
    level number already, \<^verbatim>\<open>totalCoins\<close> is 0, and the collections hold the entities built
    from the new descriptor before the exception: each array up to its first \<^verbatim>\<open>null\<close>,
    and nothing after the first array that raised.
  \<^item> On success the collections hold exactly the entities built from the new descriptor.
\<close>

theorem loadLevel_outcomes:
  "(loadJSON n = Rejected \<longrightarrow>
      Level_loadLevel loadJSON n lv = (False, clearLevel lv) \<and>
      fst (Game_loadLevel loadJSON n g) = False \<and>
      gameMessage (snd (Game_loadLevel loadJSON n g)) =
        Some \<lparr>mb_title = ''Error'', mb_text = FailedToLoadLevel n, mb_buttonText = ''OK'',
              mb_onclick = Some HideMessage, mb_hidden = False\<rparr> \<and>
      gameState (snd (Game_loadLevel loadJSON n g)) = gameState g \<and>
      player (snd (Game_loadLevel loadJSON n g)) = player g \<and>
      timers (snd (Game_loadLevel loadJSON n g)) = timers g \<and>
      level (snd (Game_loadLevel loadJSON n g)) = clearLevel (level g) \<and>
      levelData (clearLevel (level g)) = levelData (level g) \<and>
      Level.currentLevel (clearLevel (level g)) = Level.currentLevel (level g) \<and>
      platforms (clearLevel (level g)) = [] \<and> collectibles (clearLevel (level g)) = [] \<and>
      hazards (clearLevel (level g)) = [] \<and> environment (clearLevel (level g)) = [] \<and>
      interactive (clearLevel (level g)) = [] \<and> totalCoins (clearLevel (level g)) = 0) \<and>
   (loadJSON n = Parsed None \<longrightarrow>
      Level_loadLevel loadJSON n lv =
        (False, (clearLevel lv)\<lparr>levelData := None, Level.currentLevel := n\<rparr>)) \<and>
   (loadJSON n = Parsed (Some d) \<and> \<not> wellFormed d \<longrightarrow>
      fst (Level_loadLevel loadJSON n lv) = False \<and>
      levelData (snd (Level_loadLevel loadJSON n lv)) = Some d \<and>
      Level.currentLevel (snd (Level_loadLevel loadJSON n lv)) = n \<and>
      totalCoins (snd (Level_loadLevel loadJSON n lv)) = 0 \<and>
      platforms (snd (Level_loadLevel loadJSON n lv)) =
        map (createObject ''platforms'') (entries (ld_platforms d)) \<and>
      collectibles (snd (Level_loadLevel loadJSON n lv)) =
        (if loopCompletes (ld_platforms d)
         then map newCollectible (entries (ld_collectibles d)) else []) \<and>
      hazards (snd (Level_loadLevel loadJSON n lv)) =
        (if loopCompletes (ld_platforms d) \<and> loopCompletes (ld_collectibles d)
         then map newHazard (entries (ld_hazards d)) else []) \<and>
      environment (snd (Level_loadLevel loadJSON n lv)) =
        (if loopCompletes (ld_platforms d) \<and> loopCompletes (ld_collectibles d) \<and>
            loopCompletes (ld_hazards d)
         then map (createObject ''environment'') (entries (ld_environment d)) else []) \<and>
      interactive (snd (Level_loadLevel loadJSON n lv)) =
        (if loopCompletes (ld_platforms d) \<and> loopCompletes (ld_collectibles d) \<and>
            loopCompletes (ld_hazards d) \<and> loopCompletes (ld_environment d)
         then map newInteractive (entries (ld_interactive d)) else [])) \<and>
   (fst (Level_loadLevel loadJSON n (level g)) = False \<longrightarrow>
      fst (Game_loadLevel loadJSON n g) = False \<and>
      gameMessage (snd (Game_loadLevel loadJSON n g)) =
        Some \<lparr>mb_title = ''Error'', mb_text = FailedToLoadLevel n, mb_buttonText = ''OK'',
              mb_onclick = Some HideMessage, mb_hidden = False\<rparr> \<and>
      gameState (snd (Game_loadLevel loadJSON n g)) = gameState g \<and>
      player (snd (Game_loadLevel loadJSON n g)) = player g \<and>
      timers (snd (Game_loadLevel loadJSON n g)) = timers g \<and>
      level (snd (Game_loadLevel loadJSON n g)) = snd (Level_loadLevel loadJSON n (level g))) \<and>
   (loadJSON n = Parsed (Some d) \<and> wellFormed d \<longrightarrow>
      fst (Level_loadLevel loadJSON n lv) \<and>
      platforms (snd (Level_loadLevel loadJSON n lv)) =
        map (createObject ''platforms'') (entries (ld_platforms d)) \<and>
      collectibles (snd (Level_loadLevel loadJSON n lv)) =
        map newCollectible (entries (ld_collectibles d)) \<and>
      hazards (snd (Level_loadLevel loadJSON n lv)) = map newHazard (entries (ld_hazards d)) \<and>
      environment (snd (Level_loadLevel loadJSON n lv)) =
        map (createObject ''environment'') (entries (ld_environment d)) \<and>
      interactive (snd (Level_loadLevel loadJSON n lv)) =
        map newInteractive (entries (ld_interactive d))) \<and>
   Level_loadLevel loadJSON n lv = Level_loadLevel loadJSON n (clearLevel lv)"
proof (intro conjI impI)
  assume none: "loadJSON n = Rejected"
  note gl = Game_loadLevel_None [of loadJSON n g, OF none]
  show "Level_loadLevel loadJSON n lv = (False, clearLevel lv)"
    using none by (rule Level_loadLevel_Rejected)
  show "fst (Game_loadLevel loadJSON n g) = False" by (simp add: gl)
  show "gameMessage (snd (Game_loadLevel loadJSON n g)) =
        Some \<lparr>mb_title = ''Error'', mb_text = FailedToLoadLevel n, mb_buttonText = ''OK'',
              mb_onclick = Some HideMessage, mb_hidden = False\<rparr>" by (simp add: gl)
  show "gameState (snd (Game_loadLevel loadJSON n g)) = gameState g" by (simp add: gl)
  show "player (snd (Game_loadLevel loadJSON n g)) = player g" by (simp add: gl)
  show "timers (snd (Game_loadLevel loadJSON n g)) = timers g" by (simp add: gl)
  show "level (snd (Game_loadLevel loadJSON n g)) = clearLevel (level g)" by (simp add: gl)
  show "levelData (clearLevel (level g)) = levelData (level g)"
    "Level.currentLevel (clearLevel (level g)) = Level.currentLevel (level g)"
    "platforms (clearLevel (level g)) = []" "collectibles (clearLevel (level g)) = []"
    "hazards (clearLevel (level g)) = []" "environment (clearLevel (level g)) = []"
    "interactive (clearLevel (level g)) = []" "totalCoins (clearLevel (level g)) = 0"
    by (simp_all add: clearLevel_def)
next
  assume "loadJSON n = Parsed None"
  then show "Level_loadLevel loadJSON n lv =
        (False, (clearLevel lv)\<lparr>levelData := None, Level.currentLevel := n\<rparr>)"
    by (rule Level_loadLevel_null)
next
  assume a: "loadJSON n = Parsed (Some d) \<and> \<not> wellFormed d"
  then have some: "loadJSON n = Parsed (Some d)" and bad: "\<not> wellFormed d"
    by simp_all
  note ll = Level_loadLevel_Parsed [of loadJSON n d lv, OF some]
  show "fst (Level_loadLevel loadJSON n lv) = False" by (simp add: ll bad)
  show "levelData (snd (Level_loadLevel loadJSON n lv)) = Some d" by (simp add: ll)
  show "Level.currentLevel (snd (Level_loadLevel loadJSON n lv)) = n" by (simp add: ll)
  show "totalCoins (snd (Level_loadLevel loadJSON n lv)) = 0" by (simp add: ll bad)
  show "platforms (snd (Level_loadLevel loadJSON n lv)) =
        map (createObject ''platforms'') (entries (ld_platforms d))" by (simp add: ll)
  show "collectibles (snd (Level_loadLevel loadJSON n lv)) =
        (if loopCompletes (ld_platforms d)
         then map newCollectible (entries (ld_collectibles d)) else [])" by (simp add: ll)
  show "hazards (snd (Level_loadLevel loadJSON n lv)) =
        (if loopCompletes (ld_platforms d) \<and> loopCompletes (ld_collectibles d)
         then map newHazard (entries (ld_hazards d)) else [])" by (simp add: ll)
  show "environment (snd (Level_loadLevel loadJSON n lv)) =
        (if loopCompletes (ld_platforms d) \<and> loopCompletes (ld_collectibles d) \<and>
            loopCompletes (ld_hazards d)
         then map (createObject ''environment'') (entries (ld_environment d)) else [])"
    by (simp add: ll)
  show "interactive (snd (Level_loadLevel loadJSON n lv)) =
        (if loopCompletes (ld_platforms d) \<and> loopCompletes (ld_collectibles d) \<and>
            loopCompletes (ld_hazards d) \<and> loopCompletes (ld_environment d)
         then map newInteractive (entries (ld_interactive d)) else [])" by (simp add: ll)
next
  assume f: "fst (Level_loadLevel loadJSON n (level g)) = False"
  note gl = Game_loadLevel_failure [of loadJSON n g, OF f]
  show "fst (Game_loadLevel loadJSON n g) = False" by (simp add: gl)
  show "gameMessage (snd (Game_loadLevel loadJSON n g)) =
        Some \<lparr>mb_title = ''Error'', mb_text = FailedToLoadLevel n, mb_buttonText = ''OK'',
              mb_onclick = Some HideMessage, mb_hidden = False\<rparr>" by (simp add: gl)
  show "gameState (snd (Game_loadLevel loadJSON n g)) = gameState g" by (simp add: gl)
  show "player (snd (Game_loadLevel loadJSON n g)) = player g" by (simp add: gl)
  show "timers (snd (Game_loadLevel loadJSON n g)) = timers g" by (simp add: gl)
  show "level (snd (Game_loadLevel loadJSON n g)) = snd (Level_loadLevel loadJSON n (level g))"
    by (simp add: gl)
next
  assume a: "loadJSON n = Parsed (Some d) \<and> wellFormed d"
  then have some: "loadJSON n = Parsed (Some d)" and ok: "wellFormed d"
    by simp_all
  note ll = Level_loadLevel_Some [of loadJSON n d lv, OF some ok]
  show "fst (Level_loadLevel loadJSON n lv)" by (simp add: ll)
  show "platforms (snd (Level_loadLevel loadJSON n lv)) =
        map (createObject ''platforms'') (entries (ld_platforms d))" by (simp add: ll)
  show "collectibles (snd (Level_loadLevel loadJSON n lv)) =
        map newCollectible (entries (ld_collectibles d))" by (simp add: ll)
  show "hazards (snd (Level_loadLevel loadJSON n lv)) = map newHazard (entries (ld_hazards d))"
    by (simp add: ll)
  show "environment (snd (Level_loadLevel loadJSON n lv)) =
        map (createObject ''environment'') (entries (ld_environment d))" by (simp add: ll)
  show "interactive (snd (Level_loadLevel loadJSON n lv)) =
        map newInteractive (entries (ld_interactive d))" by (simp add: ll)
next
  show "Level_loadLevel loadJSON n lv = Level_loadLevel loadJSON n (clearLevel lv)"
    by (simp add: Level_loadLevel_clear)
qed

theorem loadLevel_outcomes_witness:
  "exampleLoader 2 = Rejected \<and>
   fst (Game_loadLevel exampleLoader 2 loadedGame) = False \<and>
   gameState (snd (Game_loadLevel exampleLoader 2 loadedGame)) = gameState loadedGame \<and>
   level (snd (Game_loadLevel exampleLoader 2 loadedGame)) = clearLevel (level loadedGame) \<and>
   exampleLoader 4 = Parsed None \<and>
   Level_loadLevel exampleLoader 4 (level loadedGame) =
     (False, (clearLevel (level loadedGame))\<lparr>levelData := None, Level.currentLevel := 4\<rparr>) \<and>
   exampleLoader 3 = Parsed (Some brokenData) \<and> \<not> wellFormed brokenData \<and>
   fst (Level_loadLevel exampleLoader 3 (level loadedGame)) = False \<and>
   levelData (snd (Level_loadLevel exampleLoader 3 (level loadedGame))) = Some brokenData \<and>
   Level.currentLevel (snd (Level_loadLevel exampleLoader 3 (level loadedGame))) = 3 \<and>
   length (platforms (snd (Level_loadLevel exampleLoader 3 (level loadedGame)))) = 2 \<and>
   collectibles (snd (Level_loadLevel exampleLoader 3 (level loadedGame))) = [] \<and>
   hazards (snd (Level_loadLevel exampleLoader 3 (level loadedGame))) = [] \<and>
   exampleLoader 5 = Parsed (Some nullEntryData) \<and> \<not> wellFormed nullEntryData \<and>
   length (platforms (snd (Level_loadLevel exampleLoader 5 (level loadedGame)))) = 1 \<and>
   collectibles (snd (Level_loadLevel exampleLoader 5 (level loadedGame))) = [] \<and>
   fst (Game_loadLevel exampleLoader 3 loadedGame) = False \<and>
   gameState (snd (Game_loadLevel exampleLoader 3 loadedGame)) = gameState loadedGame \<and>
   player (snd (Game_loadLevel exampleLoader 3 loadedGame)) = player loadedGame \<and>
   exampleLoader 1 = Parsed (Some fiveCoinData) \<and> wellFormed fiveCoinData \<and>
   fst (Level_loadLevel exampleLoader 1 (level loadedGame)) \<and>
   length (collectibles (snd (Level_loadLevel exampleLoader 1 (level loadedGame)))) = 6"
proof -
  note rejected = loadLevel_outcomes [of exampleLoader 2 "level loadedGame" loadedGame
      fiveCoinData, THEN conjunct1, rule_format, OF exampleLoader_simps(2)]
  note null = loadLevel_outcomes [of exampleLoader 4 "level loadedGame" loadedGame
      fiveCoinData, THEN conjunct2, THEN conjunct1, rule_format, OF exampleLoader_simps(4)]
  note broken = loadLevel_outcomes [of exampleLoader 3 "level loadedGame" loadedGame
      brokenData, THEN conjunct2, THEN conjunct2, THEN conjunct1, rule_format,
      OF conjI [OF exampleLoader_simps(3) wellFormed_examples(3)]]
  note nullEntry = loadLevel_outcomes [of exampleLoader 5 "level loadedGame" loadedGame
      nullEntryData, THEN conjunct2, THEN conjunct2, THEN conjunct1, rule_format,
      OF conjI [OF exampleLoader_simps(5) wellFormed_examples(4)]]
  from broken have failed: "fst (Level_loadLevel exampleLoader 3 (level loadedGame)) = False"
    by blast
  note game = loadLevel_outcomes [of exampleLoader 3 "level loadedGame" loadedGame
      brokenData, THEN conjunct2, THEN conjunct2, THEN conjunct2, THEN conjunct1,
      rule_format, OF failed]
  note success = loadLevel_outcomes [of exampleLoader 1 "level loadedGame" loadedGame
      fiveCoinData, THEN conjunct2, THEN conjunct2, THEN conjunct2, THEN conjunct2,
      THEN conjunct1, rule_format, OF conjI [OF exampleLoader_simps(1) wellFormed_examples(1)]]
  have sizes: "length (map newCollectible (entries (ld_collectibles fiveCoinData))) = 6"
    "length (map (createObject ''platforms'') (entries (ld_platforms brokenData))) = 2"
    "loopCompletes (ld_platforms brokenData)" "\<not> loopCompletes (ld_collectibles brokenData)"
    "entries (ld_collectibles brokenData) = []"
    "length (map (createObject ''platforms'') (entries (ld_platforms nullEntryData))) = 1"
    "\<not> loopCompletes (ld_platforms nullEntryData)"
    by (simp_all add: fiveCoinData_def brokenData_def nullEntryData_def entries_def
        loopCompletes_def)
  from success sizes(1)
  have s: "fst (Level_loadLevel exampleLoader 1 (level loadedGame))"
    "length (collectibles (snd (Level_loadLevel exampleLoader 1 (level loadedGame)))) = 6"
    by simp_all
  from broken sizes(2,3,4,5)
  have b: "levelData (snd (Level_loadLevel exampleLoader 3 (level loadedGame))) = Some brokenData"
    "Level.currentLevel (snd (Level_loadLevel exampleLoader 3 (level loadedGame))) = 3"
    "length (platforms (snd (Level_loadLevel exampleLoader 3 (level loadedGame)))) = 2"
    "collectibles (snd (Level_loadLevel exampleLoader 3 (level loadedGame))) = []"
    "hazards (snd (Level_loadLevel exampleLoader 3 (level loadedGame))) = []"
    by simp_all
  from nullEntry sizes(6,7)
  have e: "length (platforms (snd (Level_loadLevel exampleLoader 5 (level loadedGame)))) = 1"
    "collectibles (snd (Level_loadLevel exampleLoader 5 (level loadedGame))) = []"
    by simp_all
  from rejected have r: "fst (Game_loadLevel exampleLoader 2 loadedGame) = False"
    "gameState (snd (Game_loadLevel exampleLoader 2 loadedGame)) = gameState loadedGame"
    "level (snd (Game_loadLevel exampleLoader 2 loadedGame)) = clearLevel (level loadedGame)"
    by blast+
  from game have gm: "fst (Game_loadLevel exampleLoader 3 loadedGame) = False"
    "gameState (snd (Game_loadLevel exampleLoader 3 loadedGame)) = gameState loadedGame"
    "player (snd (Game_loadLevel exampleLoader 3 loadedGame)) = player loadedGame"
    by blast+
  show ?thesis
    using exampleLoader_simps wellFormed_examples r null failed b e gm s
    by (intro conjI)
qed

text \<open>
  Without the amendment the statement fails: after level 1 has been loaded, a failing
  load of level 2 returns false and leaves the level without the platform, the six
  collectibles and the hazard it had.
\<close>

theorem loadLevel_failure_clears_entities:
  "fst (Game_loadLevel exampleLoader 2 loadedGame) = False \<and>
   length (platforms (level loadedGame)) = 1 \<and>
   length (collectibles (level loadedGame)) = 6 \<and>
   length (hazards (level loadedGame)) = 1 \<and>
   platforms (level (snd (Game_loadLevel exampleLoader 2 loadedGame))) = [] \<and>
   collectibles (level (snd (Game_loadLevel exampleLoader 2 loadedGame))) = [] \<and>
   hazards (level (snd (Game_loadLevel exampleLoader 2 loadedGame))) = [] \<and>
   level (snd (Game_loadLevel exampleLoader 2 loadedGame)) \<noteq> level loadedGame"
proof -
  have before: "length (platforms (level loadedGame)) = 1"
    "length (collectibles (level loadedGame)) = 6" "length (hazards (level loadedGame)) = 1"
    by (simp_all add: level_loadedGame Level_loadLevel_example fiveCoinData_def entries_def)
  have after: "Game_loadLevel exampleLoader 2 loadedGame =
     (False, loadedGame\<lparr>level := clearLevel (level loadedGame),
               gameMessage := Some \<lparr>mb_title = ''Error'', mb_text = FailedToLoadLevel 2,
                 mb_buttonText = ''OK'', mb_onclick = Some HideMessage, mb_hidden = False\<rparr>\<rparr>)"
    using exampleLoader_simps(2) by (rule Game_loadLevel_None [of exampleLoader 2 loadedGame])
  have cleared: "platforms (clearLevel (level loadedGame)) = []"
    "collectibles (clearLevel (level loadedGame)) = []"
    "hazards (clearLevel (level loadedGame)) = []"
    by (simp_all add: clearLevel_def)
  have "platforms (clearLevel (level loadedGame)) \<noteq> platforms (level loadedGame)"
    using before(1) cleared(1) by auto
  then have "clearLevel (level loadedGame) \<noteq> level loadedGame"
    by auto
  then show ?thesis
    using before cleared by (simp add: after)
qed

subsection \<open>Death and respawn\<close>

lemma collectItem_gs_lives:
  "GameState.lives (gameState (snd (collectItem c g))) = GameState.lives (gameState g)"
  by (simp add: collectItem_def Let_def addScore_def addCoin_def addLife_def)

lemma collectibleStep_gs_lives:
  "GameState.lives (gameState (snd (collectibleStep c g))) = GameState.lives (gameState g)"
  by (simp add: collectibleStep_def collectItem_gs_lives)

lemma checkCollectibleCollisions_gs_lives:
  "GameState.lives (gameState (snd (checkCollectibleCollisions cs g))) =
   GameState.lives (gameState g)"
  by (induction cs arbitrary: g) (simp_all add: Let_def collectibleStep_gs_lives)

lemma takeDamage_gameState: "gameState (takeDamage g) = gameState g"
  by (simp add: takeDamage_def die_def Let_def)

lemma hazardStep_gameState: "gameState (hazardStep h g) = gameState g"
  by (simp add: hazardStep_def takeDamage_gameState)

lemma checkHazardCollisions_gameState: "gameState (checkHazardCollisions hzs g) = gameState g"
  unfolding checkHazardCollisions_def
  by (induction hzs arbitrary: g) (simp_all add: hazardStep_gameState)

lemma checkBoundaries_gameState: "gameState (checkBoundaries g) = gameState g"
  by (simp add: checkBoundaries_def Let_def takeDamage_gameState)

lemma Player_update_gs_lives:
  "GameState.lives (gameState (snd (Player_update pfs cls hzs g))) =
   GameState.lives (gameState g)"
  by (simp add: Player_update_def Let_def checkBoundaries_gameState
      checkHazardCollisions_gameState checkCollectibleCollisions_gs_lives)

lemma tick_gs_lives: "GameState.lives (gameState (tick fr g)) = GameState.lives (gameState g)"
  by (simp add: tick_def Player_update_gs_lives)

lemma run_gs_lives: "GameState.lives (gameState (run frs g)) = GameState.lives (gameState g)"
  unfolding run_def by (induction frs arbitrary: g) (simp_all add: tick_gs_lives)

lemma spikeFrame_run:
  "run [spikeFrame] newGame =
     newGame\<lparr>player := newPlayer\<lparr>position := Vector3 0 4.98 0, velocity := Vector3 0 0.2 0,
                                   Player.lives := 0, isAlive := False\<rparr>,
             timers := [(500, RestoreColor), (500, RestoreColor), (1000, PlayerDied)]\<rparr>"
  by (simp add: run_def tick_alive newGame_def newPlayer_def spikeFrame_def noKeys_def
      checkBoundaries_def checkHazardCollisions_def hazardStep_def takeDamage_def die_def
      isColliding_sq spike_position checkPlatformCollisions_def updatePhysics_def
      updateMovement_def Let_def Vector3_def clamp_def power2_eq_square)

text \<open>
  \<^bold>\<open>C3.\<close> \<^verbatim>\<open>playerDied\<close> decides on \<^verbatim>\<open>gameState.lives\<close>. No frame of play changes that
  counter: damage decrements \<^verbatim>\<open>player.lives\<close> only. In the new game, one frame with three
  spikes in reach takes the three lives of the player and schedules \<^verbatim>\<open>playerDied\<close>;
  \<^verbatim>\<open>gameState.lives\<close> is still 3, so \<^verbatim>\<open>playerDied\<close> takes the \<^verbatim>\<open>restartLevel\<close> branch,
  shows no message and hands the player three lives again.
\<close>

theorem playerDied_reads_unchanged_counter:
  "GameState.lives (gameState (run frs g)) = GameState.lives (gameState g) \<and>
   Player.lives (player (run [spikeFrame] newGame)) = 0 \<and>
   isAlive (player (run [spikeFrame] newGame)) = False \<and>
   timers (run [spikeFrame] newGame) =
     [(500, RestoreColor), (500, RestoreColor), (1000, PlayerDied)] \<and>
   GameState.lives (gameState (run [spikeFrame] newGame)) = 3 \<and>
   playerDied (run [spikeFrame] newGame) = restartLevel (run [spikeFrame] newGame) \<and>
   gameMessage (playerDied (run [spikeFrame] newGame)) = None \<and>
   Player.lives (player (playerDied (run [spikeFrame] newGame))) = 3 \<and>
   isAlive (player (playerDied (run [spikeFrame] newGame))) = True"
proof -
  have inv: "GameState.lives (gameState (run frs g)) = GameState.lives (gameState g)"
    by (rule run_gs_lives)
  have died: "playerDied (run [spikeFrame] newGame) = restartLevel (run [spikeFrame] newGame)"
    by (simp add: playerDied_def run_gs_lives newGame_def newGameState_def)
  have "Player.lives (player (run [spikeFrame] newGame)) = 0 \<and>
   isAlive (player (run [spikeFrame] newGame)) = False \<and>
   timers (run [spikeFrame] newGame) =
     [(500, RestoreColor), (500, RestoreColor), (1000, PlayerDied)] \<and>
   GameState.lives (gameState (run [spikeFrame] newGame)) = 3 \<and>
   gameMessage (restartLevel (run [spikeFrame] newGame)) = None \<and>
   Player.lives (player (restartLevel (run [spikeFrame] newGame))) = 3 \<and>
   isAlive (player (restartLevel (run [spikeFrame] newGame))) = True"
    unfolding spikeFrame_run
    by (simp add: restartLevel_def Let_def reset_def newGame_def newGameState_def)
  with inv died show ?thesis by simp
qed

lemma checkBoundaries_fall:
  assumes "isAlive (player g)" and "yc (position (player g)) < - 20"
  shows "Player.lives (player (checkBoundaries g)) = Player.lives (player g) - 1"
    and "velocity (player (checkBoundaries g)) = Vector3 0 0 0"
    and "position (player (checkBoundaries g)) = Vector3 0 5 0"
  using assms
  by (simp_all add: checkBoundaries_def Let_def respawn_def takeDamage_def die_def
      Vector3_def clamp_def)

lemma player_loadedGame:
  "player loadedGame = reset (Vector3 10 5 0) newPlayer"
  "getPlayerSpawnPosition (level loadedGame) = Vector3 10 5 0"
  by (simp_all add: loadedGame_def Game_loadLevel_def
      Level_loadLevel_example
      Let_def newGame_def getPlayerSpawnPosition_def fiveCoinData_def or_num_def)

lemma platformStep_stair:
  assumes "xc (position p) = 10" and "zc (position p) = 0" and "yc (velocity p) \<le> 0"
  shows "platformStep (createObject ''platforms'' (descr ''platform'' 10 (yc (position p) - 2.9) 0))
           (p, b) =
         (p\<lparr>position := (position p)\<lparr>yc := yc (position p) - 0.9\<rparr>,
            velocity := (velocity p)\<lparr>yc := 0\<rparr>, isGrounded := True, isJumping := False\<rparr>, True)"
  using assms
  by (simp add: platformStep_def isOnPlatform_def Let_def createObject_def
      applyTransformations_def descr_def or_num_def Vector3_def)

lemma fold_stairs:
  assumes "xc (position p) = 10" and "zc (position p) = 0" and "yc (velocity p) \<le> 0"
  shows "yc (position (fst (fold platformStep (stairs n (yc (position p) - 2.9)) (p, b)))) =
           yc (position p) - 0.9 * real n \<and>
         snd (fold platformStep (stairs n (yc (position p) - 2.9)) (p, b)) = (0 < n \<or> b)"
  using assms
proof (induction n arbitrary: p b)
  case 0
  then show ?case by simp
next
  case (Suc n)
  define q where "q = p\<lparr>position := (position p)\<lparr>yc := yc (position p) - 0.9\<rparr>,
            velocity := (velocity p)\<lparr>yc := 0\<rparr>, isGrounded := True, isJumping := False\<rparr>"
  have q: "xc (position q) = 10" "zc (position q) = 0" "yc (velocity q) \<le> 0"
    "yc (position q) = yc (position p) - 0.9"
    using Suc.prems by (simp_all add: q_def)
  define X where "X = fold platformStep (stairs n (yc (position q) - 2.9)) (q, True)"
  have "yc (position p) - 2.9 - 0.9 = yc (position q) - 2.9"
    by (simp add: q(4))
  then have step: "fold platformStep (stairs (Suc n) (yc (position p) - 2.9)) (p, b) = X"
    using Suc.prems
    by (simp only: X_def stairs.simps fold_Cons comp_apply platformStep_stair q_def)
  have ih: "yc (position (fst X)) = yc (position q) - 0.9 * real n \<and>
      snd X = (0 < n \<or> True)"
    unfolding X_def using q(1,2,3) by (rule Suc.IH)
  show ?case
    unfolding step using ih q(4) by (simp add: field_simps)
qed

lemma floorGame_player:
  "player floorGame = newPlayer\<lparr>position := Vector3 10 1 0, isGrounded := True\<rparr>"
  by (simp add: floorGame_def player_loadedGame reset_def newPlayer_def)

lemma platformStep_lives: "Player.lives (fst (platformStep pf acc)) = Player.lives (fst acc)"
  by (simp add: platformStep_def Let_def)

lemma fold_platformStep_lives:
  "Player.lives (fst (fold platformStep pfs acc)) = Player.lives (fst acc)"
  by (induction pfs arbitrary: acc) (simp_all add: platformStep_lives)

lemma checkPlatformCollisions_lives:
  "Player.lives (checkPlatformCollisions pfs p) = Player.lives p"
  by (simp add: checkPlatformCollisions_def Let_def fold_platformStep_lives)

lemma checkPlatformCollisions_position:
  "position (checkPlatformCollisions pfs p) = position (fst (fold platformStep pfs (p, False)))"
  by (simp add: checkPlatformCollisions_def Let_def)

text \<open>
  \<^bold>\<open>C2.\<close> A living player found below \<open>y = -20\<close> by \<^verbatim>\<open>checkBoundaries\<close> loses exactly one
  life and is put at \<open>(0, 5, 0)\<close> with velocity zero (\<open>checkBoundaries_fall\<close>). The place is
  the constant of \<^verbatim>\<open>respawn\<close>, not the spawn point of the level: in the level loaded from
  \<open>fiveCoinData\<close>, whose spawn point is \<open>(10, 5, 0)\<close>, a frame that takes the player down
  a staircase of platforms to \<open>y = -20.6\<close> ends with the player at \<open>(0, 5, 0)\<close>.
\<close>

theorem respawn_ignores_level_spawn:
  "isAlive (player floorGame) = True \<and>
   position (player floorGame) = Vector3 10 1 0 \<and>
   Player.lives (player floorGame) = 3 \<and>
   getPlayerSpawnPosition (level floorGame) = Vector3 10 5 0 \<and>
   yc (position (player (stateAtHazardCheck (fr_platforms stairFrame) [] floorGame))) = - 20.6 \<and>
   Player.lives (player (tick stairFrame floorGame)) = 2 \<and>
   velocity (player (tick stairFrame floorGame)) = Vector3 0 0 0 \<and>
   position (player (tick stairFrame floorGame)) = Vector3 0 5 0 \<and>
   position (player (tick stairFrame floorGame)) \<noteq> getPlayerSpawnPosition (level floorGame)"
proof -
  define p where "p = updatePhysics (updateMovement ((player floorGame)\<lparr>keys := noKeys\<rparr>))"
  define g where "g = floorGame\<lparr>player := checkPlatformCollisions (stairs 24 (- 1.9)) p\<rparr>"
  have p: "p = newPlayer\<lparr>position := Vector3 10 1 0, isGrounded := True\<rparr>"
    by (simp add: p_def floorGame_player updatePhysics_def updateMovement_def Let_def
        newPlayer_def noKeys_def Vector3_def clamp_def)
  have pp: "xc (position p) = 10" "zc (position p) = 0" "yc (velocity p) \<le> 0"
    "yc (position p) = 1" "isAlive p" "Player.lives p = 3"
    by (simp_all add: p newPlayer_def Vector3_def)
  have "yc (position (fst (fold platformStep (stairs 24 (yc (position p) - 2.9)) (p, False)))) =
      yc (position p) - 0.9 * real (24::nat)"
    using fold_stairs [OF pp(1,2,3), of 24 False] by blast
  then have low: "yc (position (player g)) = - 20.6"
    by (simp add: g_def checkPlatformCollisions_position pp(4))
  have alive: "isAlive (player g)" and three: "Player.lives (player g) = 3"
    by (simp_all add: g_def checkPlatformCollisions_isAlive checkPlatformCollisions_lives pp)
  have start: "isAlive (player floorGame)"
    by (simp add: floorGame_player newPlayer_def)
  have keys: "(player floorGame)\<lparr>keys := noKeys\<rparr> = player floorGame"
    by (simp add: floorGame_player newPlayer_def noKeys_def)
  have t: "tick stairFrame floorGame = checkBoundaries g"
    using start
    by (simp add: tick_alive stairFrame_def checkHazardCollisions_def g_def p_def)
  have at_check: "stateAtHazardCheck (fr_platforms stairFrame) [] floorGame = g"
    by (simp add: stateAtHazardCheck_def stairFrame_def g_def p_def keys)
  have below: "yc (position (player g)) < - 20"
    by (simp add: low)
  note fall = checkBoundaries_fall [OF alive below]
  have sp: "getPlayerSpawnPosition (level floorGame) = Vector3 10 5 0"
    using player_loadedGame(2) by (simp add: floorGame_def)
  have "Vector3 0 5 0 \<noteq> Vector3 10 5 0"
    by (simp add: Vector3_def)
  then show ?thesis
    using fall three low sp
    by (simp add: t at_check floorGame_player newPlayer_def)
qed

end
